theory Spec2Isabelle
  imports Main "HOL-Library.Word" "HOL-Library.Signed_Division"
begin

unbundle bit_operations_syntax

section \<open>Common types\<close>

text \<open>
  Handles of the graphics API (\<^verbatim>\<open>vk::Device\<close>, \<^verbatim>\<open>vk::Fence\<close>, \<^verbatim>\<open>VmaAllocation\<close>, ...)
  are opaque; the code only compares them with \<^verbatim>\<open>nullptr\<close>. A handle is a natural
  number and \<open>0\<close> is the null handle.
\<close>

type_synonym handle = nat
type_synonym u8 = "8 word"
type_synonym u32 = "32 word"
type_synonym i32 = "32 word"

definition nullptr :: handle where
  "nullptr = 0"

text \<open>The error tags of \<^verbatim>\<open>hg::Err\<close> that the modelled functions return.\<close>

datatype Err =
    VulkanFailure
  | VkPhysicalDevicesUnavailable
  | VkPhysicalDevicesUnsuitable
  | VkQueueFamilyUnavailable
  | CouldNotWaitForVkFence
  | CouldNotAcquireVkSwapchainImage
  | CouldNotBeginVkCommandBuffer
  | CouldNotEndVkCommandBuffer
  | CouldNotSubmitVkCommandBuffer
  | CouldNotPresentVkSwapchainImage
  | InvalidWindowSize
  | CouldNotCreateGpuBuffer
  | CouldNotWriteGpuBuffer
  | CouldNotCreateGpuImage
  | CouldNotCreateGpuImageView
  | CouldNotWriteGpuImage
  | CouldNotGenerateMipmaps
  | CouldNotAllocateVkCommandBuffers
  | CouldNotCreateVkFence
  | ImageFileNotFound

text \<open>
  Modelled from the spec: the macro \<^verbatim>\<open>ASSERT\<close> and the class \<^verbatim>\<open>Result\<close> come from a
  header that is not among the sources. The spec has two classes of failure:
  programming-contract violations, which are fatal assertions and never recovered,
  and environment or API failures, which propagate as a tagged error result.
  The ways a call ends without its value: \<open>Fails e\<close> is \<^verbatim>\<open>return Err::e\<close>;
  \<open>AssertFailed\<close> is a failed \<^verbatim>\<open>ASSERT\<close>; \<open>ErrOfValue\<close> is \<^verbatim>\<open>return r.err()\<close> on a
  \<^verbatim>\<open>Result\<close> \<open>r\<close> that holds a value (\<^verbatim>\<open>r.has_err()\<close> is false) and therefore
  stores no error tag; \<open>InvalidUsage\<close> is a call of the graphics API outside
  its valid usage (a region outside a buffer), whose behaviour the API leaves
  undefined.
\<close>

datatype fault = Fails Err | AssertFailed | ErrOfValue | InvalidUsage

text \<open>The values of \<^verbatim>\<open>vk::Result\<close> / \<^verbatim>\<open>VkResult\<close> that matter to the code.\<close>

datatype VkResult =
    eSuccess
  | eNotReady
  | eTimeout
  | eSuboptimalKHR
  | eErrorOutOfDateKHR
  | eErrorOutOfHostMemory
  | eErrorOutOfDeviceMemory
  | eErrorDeviceLost
  | eErrorMemoryMapFailed
  | eErrorSurfaceLostKHR

record Engine =
  instance_h :: handle
  gpu :: handle
  device :: handle
  allocator :: handle
  queue :: handle
  command_pool :: handle
  single_time_command_pool :: handle

section \<open>Presentation surface: the frame state machine\<close>

text \<open>
  The per-slot arrays are \<^verbatim>\<open>std::array\<close>s of \<^verbatim>\<open>MaxFramesInFlight\<close> handles. The
  constant \<^verbatim>\<open>MaxFramesInFlight\<close> is declared in the header; it is the parameter \<open>N\<close>
  of \<open>end_frame\<close>. The frame index is below \<open>N\<close> in every reachable state, so
  it is a natural number.
\<close>

record Window =
  m_swapchain :: handle
  m_command_buffers :: "handle list"
  m_frame_finished_fences :: "handle list"
  m_image_available_semaphores :: "handle list"
  m_ready_to_present_semaphores :: "handle list"
  m_current_frame_index :: nat
  m_current_image_index :: u32
  m_recording :: bool

text \<open>
  Modelled from the spec: the accessors \<^verbatim>\<open>current_cmd()\<close>, \<^verbatim>\<open>is_frame_finished()\<close>,
  \<^verbatim>\<open>is_image_available()\<close> and \<^verbatim>\<open>is_ready_to_present()\<close> are declared in the header,
  which is not among the sources. By the spec every frame slot has one command
  buffer, one "frame finished" fence, one "image available" semaphore and one
  "ready to present" semaphore; the accessors read the slot of the current frame
  index. A read outside the array is given the null handle, which the assertions
  of the callers reject.
\<close>

definition slot :: "handle list \<Rightarrow> nat \<Rightarrow> handle" where
  "slot xs i = (if i < length xs then xs ! i else nullptr)"

definition current_cmd :: "Window \<Rightarrow> handle" where
  "current_cmd w = slot (m_command_buffers w) (m_current_frame_index w)"

definition is_frame_finished :: "Window \<Rightarrow> handle" where
  "is_frame_finished w = slot (m_frame_finished_fences w) (m_current_frame_index w)"

definition is_image_available :: "Window \<Rightarrow> handle" where
  "is_image_available w = slot (m_image_available_semaphores w) (m_current_frame_index w)"

definition is_ready_to_present :: "Window \<Rightarrow> handle" where
  "is_ready_to_present w = slot (m_ready_to_present_semaphores w) (m_current_frame_index w)"

text \<open>What the device answers to the calls of \<^verbatim>\<open>begin_frame\<close>, in call order.\<close>

record begin_env =
  wait_result :: VkResult
  reset_result :: VkResult
  acquire_result :: VkResult
  acquire_value :: u32
  begin_result :: VkResult

definition begin_frame :: "begin_env \<Rightarrow> Engine \<Rightarrow> Window \<Rightarrow> (fault + handle) \<times> Window" where
  "begin_frame env engine w =
    (if m_recording w \<or> current_cmd w = nullptr \<or> is_frame_finished w = nullptr
        \<or> is_image_available w = nullptr \<or> device engine = nullptr
     then (Inl AssertFailed, w)
     else if wait_result env \<noteq> eSuccess then (Inl (Fails CouldNotWaitForVkFence), w)
     else if reset_result env \<noteq> eSuccess then (Inl (Fails VulkanFailure), w)
     else if acquire_result env \<noteq> eSuccess
       then (Inl (Fails CouldNotAcquireVkSwapchainImage), w)
     else let w1 = w\<lparr>m_current_image_index := acquire_value env\<rparr> in
       if begin_result env \<noteq> eSuccess then (Inl (Fails CouldNotBeginVkCommandBuffer), w1)
       else let w2 = w1\<lparr>m_recording := True\<rparr> in (Inr (current_cmd w2), w2))"

text \<open>What the device answers to the calls of \<^verbatim>\<open>end_frame\<close>, in call order.\<close>

record end_env =
  end_result :: VkResult
  submit_result :: VkResult
  present_result :: VkResult

definition end_frame :: "nat \<Rightarrow> end_env \<Rightarrow> Engine \<Rightarrow> Window \<Rightarrow> (fault + unit) \<times> Window" where
  "end_frame N env engine w =
    (if \<not> m_recording w \<or> m_swapchain w = nullptr \<or> current_cmd w = nullptr
        \<or> is_image_available w = nullptr \<or> is_ready_to_present w = nullptr
        \<or> device engine = nullptr
     then (Inl AssertFailed, w)
     else if end_result env \<noteq> eSuccess then (Inl (Fails CouldNotEndVkCommandBuffer), w)
     else let w1 = w\<lparr>m_recording := False\<rparr> in
       if submit_result env \<noteq> eSuccess then (Inl (Fails CouldNotSubmitVkCommandBuffer), w1)
       else if present_result env = eErrorOutOfDateKHR then (Inl (Fails InvalidWindowSize), w1)
       else if present_result env \<noteq> eSuccess
         then (Inl (Fails CouldNotPresentVkSwapchainImage), w1)
       else (Inr (), w1\<lparr>m_current_frame_index := (m_current_frame_index w1 + 1) mod N\<rparr>))"

text \<open>
  A run of frames: each element of the list holds the device's answers for one
  \<^verbatim>\<open>begin_frame\<close> / \<^verbatim>\<open>end_frame\<close> pair. The run stops at the first call that does
  not succeed.
\<close>

fun frame_cycles :: "nat \<Rightarrow> (begin_env \<times> end_env) list \<Rightarrow> Engine \<Rightarrow> Window \<Rightarrow> (fault + unit) \<times> Window" where
  "frame_cycles N [] engine w = (Inr (), w)"
| "frame_cycles N ((b, e) # envs) engine w =
     (case begin_frame b engine w of
        (Inl f, w1) \<Rightarrow> (Inl f, w1)
      | (Inr cmd, w1) \<Rightarrow>
          (case end_frame N e engine w1 of
             (Inl f, w2) \<Rightarrow> (Inl f, w2)
           | (Inr u, w2) \<Rightarrow> frame_cycles N envs engine w2))"

text \<open>Concrete values used in the examples below.\<close>

definition engine0 :: Engine where
  "engine0 = \<lparr>instance_h = 1, gpu = 2, device = 3, allocator = 4, queue = 5,
     command_pool = 6, single_time_command_pool = 7\<rparr>"

definition window0 :: Window where
  "window0 = \<lparr>m_swapchain = 10, m_command_buffers = [11, 12],
     m_frame_finished_fences = [13, 14], m_image_available_semaphores = [15, 16],
     m_ready_to_present_semaphores = [17, 18], m_current_frame_index = 0,
     m_current_image_index = 0, m_recording = False\<rparr>"

definition begin_ok :: begin_env where
  "begin_ok = \<lparr>wait_result = eSuccess, reset_result = eSuccess, acquire_result = eSuccess,
     acquire_value = 0, begin_result = eSuccess\<rparr>"

definition end_ok :: end_env where
  "end_ok = \<lparr>end_result = eSuccess, submit_result = eSuccess, present_result = eSuccess\<rparr>"

section \<open>Device selection\<close>

text \<open>
  \<^verbatim>\<open>strcmp\<close> of the C library: zero when the strings are equal, otherwise the
  difference of the first pair of bytes that differ (negative when the first
  string is a proper prefix of the second, positive the other way round).
\<close>

fun strcmp :: "string \<Rightarrow> string \<Rightarrow> int" where
  "strcmp [] [] = 0"
| "strcmp [] (y # ys) = - 1"
| "strcmp (x # xs) [] = 1"
| "strcmp (x # xs) (y # ys) =
     (if x = y then strcmp xs ys else int (of_char x) - int (of_char y))"

text \<open>The bits of \<^verbatim>\<open>VkQueueFlagBits\<close>.\<close>

definition eGraphics :: u32 where
  "eGraphics = 1"

definition eCompute :: u32 where
  "eCompute = 2"

definition eTransfer :: u32 where
  "eTransfer = 4"

record QueueFamilyProperties =
  queueFlags :: u32
  queueCount :: u32

text \<open>
  A physical device as the code queries it: its handle, the two features read from
  \<^verbatim>\<open>getFeatures()\<close>, the result and the names of
  \<^verbatim>\<open>enumerateDeviceExtensionProperties()\<close>, and the list of
  \<^verbatim>\<open>getQueueFamilyProperties()\<close>.
\<close>

record PhysicalDevice =
  gpu_handle :: handle
  sampleRateShading :: bool
  samplerAnisotropy :: bool
  extensions_result :: VkResult
  extensions_value :: "string list"
  queue_families :: "QueueFamilyProperties list"

definition DeviceExtensions :: "string list" where
  "DeviceExtensions = [''VK_KHR_swapchain'', ''VK_EXT_shader_object'', ''VK_EXT_descriptor_indexing'']"

text \<open>
  \<^verbatim>\<open>std::ranges::find_if\<close> as the distance of the found iterator from \<^verbatim>\<open>begin()\<close>;
  the length of the list stands for \<^verbatim>\<open>end()\<close>.
\<close>

fun find_if :: "('a \<Rightarrow> bool) \<Rightarrow> 'a list \<Rightarrow> nat" where
  "find_if P [] = 0"
| "find_if P (x # xs) = (if P x then 0 else Suc (find_if P xs))"

definition find_queue_family :: "PhysicalDevice \<Rightarrow> fault + u32" where
  "find_queue_family g =
    (if gpu_handle g = nullptr then Inl AssertFailed
     else let queue_family =
            find_if (\<lambda>family. queueFlags family AND (eGraphics OR eCompute) \<noteq> 0) (queue_families g)
       in if queue_family = length (queue_families g) then Inl (Fails VkQueueFamilyUnavailable)
          else Inr (of_nat queue_family))"

fun find_gpu_loop :: "PhysicalDevice list \<Rightarrow> fault + PhysicalDevice" where
  "find_gpu_loop [] = Inl (Fails VkPhysicalDevicesUnsuitable)"
| "find_gpu_loop (g # gpus) =
    (if \<not> sampleRateShading g \<or> \<not> samplerAnisotropy g then find_gpu_loop gpus
     else if extensions_result g \<noteq> eSuccess then Inl (Fails VulkanFailure)
     else if \<not> list_all (\<lambda>required.
                  list_ex (\<lambda>extension. strcmp required extension \<noteq> 0) (extensions_value g))
                DeviceExtensions
       then find_gpu_loop gpus
     else (case find_queue_family g of
             Inl (Fails e) \<Rightarrow> find_gpu_loop gpus
           | Inl f \<Rightarrow> Inl f
           | Inr i \<Rightarrow> Inr g))"

text \<open>
  \<open>gpus_result\<close> and \<open>gpus_value\<close> are what \<^verbatim>\<open>enumeratePhysicalDevices()\<close>
  answers.
\<close>

definition find_gpu :: "Engine \<Rightarrow> VkResult \<Rightarrow> PhysicalDevice list \<Rightarrow> fault + PhysicalDevice" where
  "find_gpu engine gpus_result gpus_value =
    (if instance_h engine = nullptr then Inl AssertFailed
     else if gpus_result \<noteq> eSuccess then Inl (Fails VkPhysicalDevicesUnavailable)
     else find_gpu_loop gpus_value)"

text \<open>
  A device with both features and one combined graphics, compute and transfer
  queue family that lists a single extension, none of the required three.
\<close>

definition gpu_without_extensions :: PhysicalDevice where
  "gpu_without_extensions = \<lparr>gpu_handle = 2, sampleRateShading = True, samplerAnisotropy = True,
     extensions_result = eSuccess, extensions_value = [''VK_KHR_maintenance1''],
     queue_families = [\<lparr>queueFlags = 7, queueCount = 1\<rparr>]\<rparr>"

text \<open>A compute device: its only queue family has the compute and transfer bits.\<close>

definition gpu_compute_only :: PhysicalDevice where
  "gpu_compute_only = \<lparr>gpu_handle = 2, sampleRateShading = True, samplerAnisotropy = True,
     extensions_result = eSuccess, extensions_value = DeviceExtensions,
     queue_families = [\<lparr>queueFlags = 6, queueCount = 1\<rparr>]\<rparr>"

section \<open>Commands of the graphics API\<close>

text \<open>
  The structures of the graphics API that the code fills in, with the fields in
  the API's order, so that the positional initialisers of the source read the same
  here. Sizes and offsets of buffers (\<^verbatim>\<open>vk::DeviceSize\<close>) are natural numbers: the
  code does no arithmetic on them.
\<close>

datatype BufferCopy = BufferCopy (srcOffset: nat) (dstOffset: nat) (size_bytes: nat)

datatype Offset3D = Offset3D (offset_x: i32) (offset_y: i32) (offset_z: i32)

datatype Extent3D = Extent3D (width: u32) (height: u32) (depth: u32)

datatype ImageSubresourceRange =
  ImageSubresourceRange (range_aspectMask: u32) (baseMipLevel: u32) (levelCount: u32)
    (range_baseArrayLayer: u32) (range_layerCount: u32)

datatype ImageSubresourceLayers =
  ImageSubresourceLayers (aspectMask: u32) (mipLevel: u32) (baseArrayLayer: u32) (layerCount: u32)

datatype ImageLayout =
    eUndefined
  | eGeneral
  | eColorAttachmentOptimal
  | eDepthStencilAttachmentOptimal
  | eShaderReadOnlyOptimal
  | eTransferSrcOptimal
  | eTransferDstOptimal
  | ePresentSrcKHR

datatype Filter = eNearest | eLinear

text \<open>\<^verbatim>\<open>vk::ImageAspectFlagBits::eColor\<close> and the stage and access bits the code names.\<close>

definition eColor :: u32 where
  "eColor = 1"

definition stage_eNone :: "64 word" where
  "stage_eNone = 0"

definition stage_eTransfer :: "64 word" where
  "stage_eTransfer = 0x1000"

definition stage_eFragmentShader :: "64 word" where
  "stage_eFragmentShader = 0x80"

definition access_eNone :: "64 word" where
  "access_eNone = 0"

definition access_eShaderRead :: "64 word" where
  "access_eShaderRead = 0x20"

definition access_eTransferRead :: "64 word" where
  "access_eTransferRead = 0x800"

definition access_eTransferWrite :: "64 word" where
  "access_eTransferWrite = 0x1000"

record ImageBarrier =
  barrier_image :: handle
  subresourceRange :: ImageSubresourceRange
  srcStageMask :: "64 word"
  srcAccessMask :: "64 word"
  oldLayout :: ImageLayout
  dstStageMask :: "64 word"
  dstAccessMask :: "64 word"
  newLayout :: ImageLayout

record ImageCopy2 =
  srcSubresource :: ImageSubresourceLayers
  copy_srcOffset :: Offset3D
  dstSubresource :: ImageSubresourceLayers
  copy_dstOffset :: Offset3D
  extent :: Extent3D

record ImageBlit2 =
  blit_srcSubresource :: ImageSubresourceLayers
  srcOffsets0 :: Offset3D
  srcOffsets1 :: Offset3D
  blit_dstSubresource :: ImageSubresourceLayers
  dstOffsets0 :: Offset3D
  dstOffsets1 :: Offset3D

record BufferImageCopy2 =
  imageSubresource :: ImageSubresourceLayers
  imageExtent :: Extent3D

text \<open>The commands the code records into a command buffer, with their arguments.\<close>

datatype Cmd =
    PipelineBarrier2 "ImageBarrier list"
  | CopyBuffer handle handle "BufferCopy list"
  | CopyBufferToImage2 handle handle ImageLayout "BufferImageCopy2 list"
  | CopyImage2 handle ImageLayout handle ImageLayout "ImageCopy2 list"
  | BlitImage2 handle ImageLayout handle ImageLayout "ImageBlit2 list" Filter

section \<open>Single-time command helper\<close>

text \<open>What the device answers to the calls of the helper, in call order.\<close>

record stc_env =
  allocate_result :: VkResult
  allocated_cmd :: handle
  cmd_begin_result :: VkResult
  cmd_end_result :: VkResult
  fence_result :: VkResult
  queue_submit_result :: VkResult
  fence_wait_result :: VkResult

definition begin_single_time_commands :: "stc_env \<Rightarrow> Engine \<Rightarrow> fault + handle" where
  "begin_single_time_commands env engine =
    (if device engine = nullptr \<or> single_time_command_pool engine = nullptr then Inl AssertFailed
     else if allocate_result env \<noteq> eSuccess then Inl (Fails CouldNotAllocateVkCommandBuffers)
     else if cmd_begin_result env \<noteq> eSuccess then Inl (Fails CouldNotBeginVkCommandBuffer)
     else if allocated_cmd env = nullptr then Inl AssertFailed
     else Inr (allocated_cmd env))"

definition end_single_time_commands :: "stc_env \<Rightarrow> Engine \<Rightarrow> handle \<Rightarrow> fault + unit" where
  "end_single_time_commands env engine cmd =
    (if device engine = nullptr \<or> single_time_command_pool engine = nullptr \<or> cmd = nullptr
       then Inl AssertFailed
     else if cmd_end_result env \<noteq> eSuccess then Inl (Fails CouldNotEndVkCommandBuffer)
     else if fence_result env \<noteq> eSuccess then Inl (Fails CouldNotCreateVkFence)
     else if queue_submit_result env \<noteq> eSuccess then Inl (Fails CouldNotSubmitVkCommandBuffer)
     else if fence_wait_result env \<noteq> eSuccess then Inl (Fails CouldNotWaitForVkFence)
     else Inr ())"

text \<open>
  Modelled from the spec: \<^verbatim>\<open>submit_single_time_commands\<close> is a template of the
  header, which is not among the sources. The spec describes the helper as
  "allocate, record, submit, wait, free": it begins a single-time command buffer,
  lets the caller's closure record into it, and ends it. The closure is given here
  as the list of commands it records. The result is paired with the commands that
  were recorded (none when the command buffer could not be begun); the device has
  run them when the result is \<open>Inr ()\<close>.
\<close>

definition submit_single_time_commands :: "stc_env \<Rightarrow> Engine \<Rightarrow> Cmd list \<Rightarrow> (fault + unit) \<times> Cmd list" where
  "submit_single_time_commands env engine commands =
    (case begin_single_time_commands env engine of
       Inl f \<Rightarrow> (Inl f, [])
     | Inr cmd \<Rightarrow> (end_single_time_commands env engine cmd, commands))"

text \<open>The result of the helper alone, whatever the closure records.\<close>

definition single_time_outcome :: "stc_env \<Rightarrow> Engine \<Rightarrow> fault + unit" where
  "single_time_outcome env engine = fst (submit_single_time_commands env engine [])"

section \<open>Typed GPU buffer\<close>

datatype MemoryType = RandomAccess | Staging | DeviceLocal

record GpuBuffer =
  allocation :: handle
  buffer :: handle
  memory_type :: MemoryType

text \<open>\<^verbatim>\<open>GpuBuffer::Config\<close>, initialised in the code as \<^verbatim>\<open>{size, usage, memory_type}\<close>.\<close>

datatype BufferConfig = BufferConfig (config_size: nat) (config_usage: u32) (config_memory_type: MemoryType)

definition eTransferSrc :: u32 where
  "eTransferSrc = 1"

text \<open>
  The memory behind the allocator: the bytes of every live allocation, and the
  allocation each live buffer is bound to.
\<close>

record gpu_mem =
  allocations :: "handle \<rightharpoonup> u8 list"
  buffers :: "handle \<rightharpoonup> handle"

text \<open>
  What \<^verbatim>\<open>vmaCreateBuffer\<close> answers: its result, the two handles it hands out, and
  the bytes found in the fresh allocation (which the allocator does not specify).
\<close>

record create_env =
  buffer_result :: VkResult
  new_buffer :: handle
  new_allocation :: handle
  new_contents :: "nat \<Rightarrow> u8"

definition create_result :: "create_env \<Rightarrow> Engine \<Rightarrow> BufferConfig \<Rightarrow> gpu_mem \<Rightarrow> (fault + GpuBuffer) \<times> gpu_mem" where
  "create_result env engine config s =
    (if allocator engine = nullptr \<or> config_size config = 0 \<or> config_usage config = 0
       then (Inl AssertFailed, s)
     else if buffer_result env \<noteq> eSuccess then (Inl (Fails CouldNotCreateGpuBuffer), s)
     else let s1 = s\<lparr>allocations := (allocations s)(new_allocation env \<mapsto>
                        map (new_contents env) [0..<config_size config]),
                      buffers := (buffers s)(new_buffer env \<mapsto> new_allocation env)\<rparr>
       in if new_allocation env = nullptr \<or> new_buffer env = nullptr then (Inl AssertFailed, s1)
          else (Inr \<lparr>allocation = new_allocation env, buffer = new_buffer env,
                     memory_type = config_memory_type config\<rparr>, s1))"

text \<open>
  \<^verbatim>\<open>vmaCopyMemoryToAllocation\<close> on success: \<open>n\<close> bytes of the source go to the
  allocation at \<open>offset\<close>. \<open>None\<close> is a call outside the valid usage (an
  allocation that is not live, a range outside it, a source shorter than \<open>n\<close>).
\<close>

definition vmaCopyMemoryToAllocation :: "u8 list \<Rightarrow> handle \<Rightarrow> nat \<Rightarrow> nat \<Rightarrow> gpu_mem \<Rightarrow> gpu_mem option" where
  "vmaCopyMemoryToAllocation src a offset n s =
    (case allocations s a of
       None \<Rightarrow> None
     | Some bytes \<Rightarrow>
         if length src < n \<or> length bytes < offset + n then None
         else Some (s\<lparr>allocations := (allocations s)(a \<mapsto>
                take offset bytes @ take n src @ drop (offset + n) bytes)\<rparr>))"

definition vmaDestroyBuffer :: "handle \<Rightarrow> handle \<Rightarrow> gpu_mem \<Rightarrow> gpu_mem" where
  "vmaDestroyBuffer b a s = s\<lparr>allocations := (allocations s)(a := None), buffers := (buffers s)(b := None)\<rparr>"

text \<open>
  The device running \<^verbatim>\<open>vkCmdCopyBuffer\<close>: each region copies \<open>size\<close> bytes from
  \<open>srcOffset\<close> of the source buffer to \<open>dstOffset\<close> of the destination buffer.
  A region outside either buffer is outside the valid usage.
\<close>

definition copy_region :: "handle \<Rightarrow> handle \<Rightarrow> BufferCopy \<Rightarrow> gpu_mem \<Rightarrow> gpu_mem option" where
  "copy_region src dst r s =
    (case (buffers s src, buffers s dst) of
       (Some a_src, Some a_dst) \<Rightarrow>
         (case (allocations s a_src, allocations s a_dst) of
            (Some from, Some to) \<Rightarrow>
              if length from < srcOffset r + size_bytes r \<or> length to < dstOffset r + size_bytes r
                then None
              else Some (s\<lparr>allocations := (allocations s)(a_dst \<mapsto>
                     take (dstOffset r) to @ take (size_bytes r) (drop (srcOffset r) from)
                       @ drop (dstOffset r + size_bytes r) to)\<rparr>)
          | _ \<Rightarrow> None)
     | _ \<Rightarrow> None)"

fun copy_regions :: "handle \<Rightarrow> handle \<Rightarrow> BufferCopy list \<Rightarrow> gpu_mem \<Rightarrow> gpu_mem option" where
  "copy_regions src dst [] s = Some s"
| "copy_regions src dst (r # rs) s =
     (case copy_region src dst r s of None \<Rightarrow> None | Some s1 \<Rightarrow> copy_regions src dst rs s1)"

text \<open>Buffer memory after a list of commands; image commands do not touch it.\<close>

fun run_commands :: "Cmd list \<Rightarrow> gpu_mem \<Rightarrow> gpu_mem option" where
  "run_commands [] s = Some s"
| "run_commands (CopyBuffer src dst rs # cs) s =
     (case copy_regions src dst rs s of None \<Rightarrow> None | Some s1 \<Rightarrow> run_commands cs s1)"
| "run_commands (c # cs) s = run_commands cs s"

text \<open>
  The effect of a finished helper call on buffer memory. When the helper fails the
  memory is left as it was (what a failed submission leaves behind is not
  specified, and no theorem below depends on it).
\<close>

definition device_runs :: "(fault + unit) \<times> Cmd list \<Rightarrow> gpu_mem \<Rightarrow> (fault + unit) \<times> gpu_mem" where
  "device_runs submitted s =
    (case submitted of
       (Inl f, commands) \<Rightarrow> (Inl f, s)
     | (Inr u, commands) \<Rightarrow>
         (case run_commands commands s of
            None \<Rightarrow> (Inl InvalidUsage, s)
          | Some s1 \<Rightarrow> (Inr (), s1)))"

text \<open>
  What the allocator and the device answer during one \<^verbatim>\<open>write_result\<close>: the
  creation of the staging buffer, \<^verbatim>\<open>vmaCopyMemoryToAllocation\<close>, and the helper.
\<close>

record write_env =
  staging_create :: create_env
  copy_result :: VkResult
  submit_env :: stc_env

text \<open>
  The closure that \<^verbatim>\<open>write_result\<close> hands to the helper records one command,
  \<^verbatim>\<open>cmd.copyBuffer(staging_buffer->buffer, buffer, {vk::BufferCopy(offset, 0, size)})\<close>.
\<close>

definition write_commands :: "GpuBuffer \<Rightarrow> GpuBuffer \<Rightarrow> nat \<Rightarrow> nat \<Rightarrow> Cmd list" where
  "write_commands staging_buffer b n offset =
     [CopyBuffer (buffer staging_buffer) (buffer b) [BufferCopy offset 0 n]]"

text \<open>
  \<open>data\<close> is the memory behind the pointer (\<open>None\<close> for \<^verbatim>\<open>nullptr\<close>). The
  \<^verbatim>\<open>defer\<close> of the staging buffer's destruction runs when the scope is left, that
  is on every return after the staging buffer exists.
\<close>

definition write_result :: "write_env \<Rightarrow> Engine \<Rightarrow> GpuBuffer \<Rightarrow> u8 list option \<Rightarrow> nat \<Rightarrow> nat \<Rightarrow> gpu_mem \<Rightarrow> (fault + unit) \<times> gpu_mem" where
  "write_result env engine b data n offset s =
    (if allocator engine = nullptr \<or> allocation b = nullptr \<or> buffer b = nullptr
        \<or> data = None \<or> n = 0 \<or> (memory_type b = Staging \<and> offset \<noteq> 0)
       then (Inl AssertFailed, s)
     else if memory_type b = RandomAccess \<or> memory_type b = Staging then
       (if copy_result env \<noteq> eSuccess then (Inl (Fails CouldNotWriteGpuBuffer), s)
        else case vmaCopyMemoryToAllocation (the data) (allocation b) offset n s of
               None \<Rightarrow> (Inl InvalidUsage, s)
             | Some s1 \<Rightarrow> (Inr (), s1))
     else
       (case create_result (staging_create env) engine (BufferConfig n eTransferSrc Staging) s of
          (Inl f, s1) \<Rightarrow> (Inl f, s1)
        | (Inr staging_buffer, s1) \<Rightarrow>
            (let (r, s2) =
               (if copy_result env \<noteq> eSuccess then (Inl ErrOfValue, s1)
                else case vmaCopyMemoryToAllocation (the data) (allocation staging_buffer) 0 n s1 of
                       None \<Rightarrow> (Inl InvalidUsage, s1)
                     | Some s2 \<Rightarrow>
                         (case device_runs (submit_single_time_commands (submit_env env) engine
                                 (write_commands staging_buffer b n offset)) s2 of
                            (Inl (Fails e), s3) \<Rightarrow> (Inl (Fails CouldNotWriteGpuBuffer), s3)
                          | (Inl f, s3) \<Rightarrow> (Inl f, s3)
                          | (Inr u, s3) \<Rightarrow> (Inr (), s3)))
             in (r, vmaDestroyBuffer (buffer staging_buffer) (allocation staging_buffer) s2))))"

text \<open>
  Reading a region of a buffer back, as the round-trip property of the spec does
  it: a host-visible buffer of \<open>n\<close> bytes is created, the device copies the
  region into it, and its bytes are read.
\<close>

definition read_back :: "create_env \<Rightarrow> stc_env \<Rightarrow> Engine \<Rightarrow> GpuBuffer \<Rightarrow> nat \<Rightarrow> nat \<Rightarrow> gpu_mem \<Rightarrow> u8 list option" where
  "read_back cenv senv engine b n offset s =
    (case create_result cenv engine (BufferConfig n 2 RandomAccess) s of
       (Inl f, s1) \<Rightarrow> None
     | (Inr host, s1) \<Rightarrow>
         (case device_runs (submit_single_time_commands senv engine
                 [CopyBuffer (buffer b) (buffer host) [BufferCopy offset 0 n]]) s1 of
            (Inl f, s2) \<Rightarrow> None
          | (Inr u, s2) \<Rightarrow> allocations s2 (allocation host)))"

text \<open>Concrete values used in the examples below.\<close>

definition stc_ok :: stc_env where
  "stc_ok = \<lparr>allocate_result = eSuccess, allocated_cmd = 20, cmd_begin_result = eSuccess,
     cmd_end_result = eSuccess, fence_result = eSuccess, queue_submit_result = eSuccess,
     fence_wait_result = eSuccess\<rparr>"

definition create_ok :: "handle \<Rightarrow> handle \<Rightarrow> create_env" where
  "create_ok b a = \<lparr>buffer_result = eSuccess, new_buffer = b, new_allocation = a,
     new_contents = (\<lambda>i. 0)\<rparr>"

definition write_ok :: write_env where
  "write_ok = \<lparr>staging_create = create_ok 32 33, copy_result = eSuccess, submit_env = stc_ok\<rparr>"

text \<open>A device-local buffer of eight bytes, a staging and a random-access buffer of 64.\<close>

definition device_buffer :: GpuBuffer where
  "device_buffer = \<lparr>allocation = 41, buffer = 40, memory_type = DeviceLocal\<rparr>"

definition staging_buffer64 :: GpuBuffer where
  "staging_buffer64 = \<lparr>allocation = 43, buffer = 42, memory_type = Staging\<rparr>"

definition random_buffer64 :: GpuBuffer where
  "random_buffer64 = \<lparr>allocation = 45, buffer = 44, memory_type = RandomAccess\<rparr>"

definition mem0 :: gpu_mem where
  "mem0 = \<lparr>allocations = [41 \<mapsto> replicate 8 0, 43 \<mapsto> replicate 64 0, 45 \<mapsto> replicate 64 0],
     buffers = [40 \<mapsto> 41, 42 \<mapsto> 43, 44 \<mapsto> 45]\<rparr>"

section \<open>Barrier builder\<close>

text \<open>
  Modelled from the spec: \<^verbatim>\<open>BarrierBuilder\<close> is a class of the header, which is not
  among the sources. The spec: it accumulates a sequence of per-image
  synchronization descriptors (image, subresource range, and a source and a
  destination of stage, access mask and layout); \<^verbatim>\<open>add_image_barrier\<close> appends a new
  pending descriptor; \<^verbatim>\<open>set_image_src\<close> and \<^verbatim>\<open>set_image_dst\<close> fill in the most
  recently added descriptor's source and destination (defaults: undefined layout,
  no stage, no access); \<^verbatim>\<open>build_and_run\<close> issues exactly one batched barrier command
  covering all accumulated descriptors. Every builder in the sources is a
  temporary that starts empty, written \<open>[]\<close> here.
\<close>

definition add_image_barrier :: "handle \<Rightarrow> ImageSubresourceRange \<Rightarrow> ImageBarrier list \<Rightarrow> ImageBarrier list" where
  "add_image_barrier img subresource pending =
     pending @ [\<lparr>barrier_image = img, subresourceRange = subresource,
       srcStageMask = stage_eNone, srcAccessMask = access_eNone, oldLayout = eUndefined,
       dstStageMask = stage_eNone, dstAccessMask = access_eNone, newLayout = eUndefined\<rparr>]"

text \<open>
  Modelled from the spec: \<^verbatim>\<open>set_image_src\<close> fills in the source of the most recently
  added descriptor.
\<close>

definition set_image_src :: "64 word \<Rightarrow> 64 word \<Rightarrow> ImageLayout \<Rightarrow> ImageBarrier list \<Rightarrow> ImageBarrier list" where
  "set_image_src stage access layout pending =
     (case rev pending of
        [] \<Rightarrow> []
      | b # bs \<Rightarrow> rev bs @ [b\<lparr>srcStageMask := stage, srcAccessMask := access, oldLayout := layout\<rparr>])"

text \<open>
  Modelled from the spec: \<^verbatim>\<open>set_image_dst\<close> fills in the destination of the most
  recently added descriptor.
\<close>

definition set_image_dst :: "64 word \<Rightarrow> 64 word \<Rightarrow> ImageLayout \<Rightarrow> ImageBarrier list \<Rightarrow> ImageBarrier list" where
  "set_image_dst stage access layout pending =
     (case rev pending of
        [] \<Rightarrow> []
      | b # bs \<Rightarrow> rev bs @ [b\<lparr>dstStageMask := stage, dstAccessMask := access, newLayout := layout\<rparr>])"

text \<open>
  Modelled from the spec: \<^verbatim>\<open>build_and_run\<close> issues one batched barrier command that
  covers all accumulated descriptors.
\<close>

definition build_and_run :: "ImageBarrier list \<Rightarrow> Cmd list" where
  "build_and_run pending = [PipelineBarrier2 pending]"

section \<open>Typed GPU image\<close>

record StagingGpuImage =
  staging_allocation :: handle
  staging_image :: handle

record GpuImage =
  image_allocation :: handle
  image :: handle
  view :: handle

text \<open>
  \<^verbatim>\<open>StagingGpuImage::Config\<close> and \<^verbatim>\<open>GpuImage::Config\<close>, with the fields the code
  reads. Formats, usages, aspects and sample counts are the API's numbers; zero is
  the undefined format and the empty flag set.
\<close>

record StagingConfig =
  staging_extent :: Extent3D
  staging_format :: u32
  staging_usage :: u32
  staging_sample_count :: u32
  staging_mip_levels :: u32

record ImageConfig =
  config_extent :: Extent3D
  config_format :: u32
  config_image_usage :: u32
  config_aspect_flags :: u32
  config_layout :: ImageLayout
  config_sample_count :: u32
  config_mip_levels :: u32

text \<open>
  \<^verbatim>\<open>VkImageCreateInfo\<close> and \<^verbatim>\<open>vk::ImageViewCreateInfo\<close>. The code zero-initialises the
  creation structure, which leaves the initial layout undefined.
\<close>

record ImageCreateInfo =
  info_flags :: u32
  imageType :: u32
  info_format :: u32
  info_extent :: Extent3D
  mipLevels :: u32
  arrayLayers :: u32
  samples :: u32
  info_usage :: u32
  initialLayout :: ImageLayout

record ImageViewCreateInfo =
  view_image :: handle
  viewType :: u32
  view_format :: u32
  view_subresourceRange :: ImageSubresourceRange

text \<open>
  The calls an image operation makes to the allocator and the device, in order.
  \<open>Submit\<close> carries the commands recorded through the single-time helper.
\<close>

datatype Call =
    VmaCreateImage ImageCreateInfo
  | CreateImageView ImageViewCreateInfo
  | Submit "Cmd list"
  | DestroyStagingImage StagingGpuImage

definition VK_IMAGE_TYPE_3D :: u32 where
  "VK_IMAGE_TYPE_3D = 2"

definition VK_IMAGE_TYPE_2D :: u32 where
  "VK_IMAGE_TYPE_2D = 1"

definition ImageViewType_e3D :: u32 where
  "ImageViewType_e3D = 2"

definition ImageViewType_eCube :: u32 where
  "ImageViewType_eCube = 3"

definition eR8G8B8A8Srgb :: u32 where
  "eR8G8B8A8Srgb = 43"

definition VK_IMAGE_USAGE_TRANSFER_SRC_BIT :: u32 where
  "VK_IMAGE_USAGE_TRANSFER_SRC_BIT = 1"

definition VK_IMAGE_USAGE_TRANSFER_DST_BIT :: u32 where
  "VK_IMAGE_USAGE_TRANSFER_DST_BIT = 2"

definition VK_IMAGE_USAGE_SAMPLED_BIT :: u32 where
  "VK_IMAGE_USAGE_SAMPLED_BIT = 4"

definition VK_IMAGE_CREATE_CUBE_COMPATIBLE_BIT :: u32 where
  "VK_IMAGE_CREATE_CUBE_COMPATIBLE_BIT = 0x10"

definition VK_SAMPLE_COUNT_1_BIT :: u32 where
  "VK_SAMPLE_COUNT_1_BIT = 1"

definition eSampledImageFilterLinear :: u32 where
  "eSampledImageFilterLinear = 0x1000"

text \<open>What \<^verbatim>\<open>vmaCreateImage\<close> answers.\<close>

record image_env =
  image_result :: VkResult
  new_image :: handle
  new_image_allocation :: handle

definition StagingGpuImage_create :: "image_env \<Rightarrow> Engine \<Rightarrow> StagingConfig \<Rightarrow> (fault + StagingGpuImage) \<times> Call list" where
  "StagingGpuImage_create env engine config =
    (if device engine = nullptr \<or> allocator engine = nullptr
        \<or> width (staging_extent config) = 0 \<or> height (staging_extent config) = 0
        \<or> depth (staging_extent config) = 0 \<or> staging_format config = 0
        \<or> staging_usage config = 0 \<or> staging_sample_count config = 0
        \<or> staging_mip_levels config = 0
       then (Inl AssertFailed, [])
     else let dimensions =
            (if depth (staging_extent config) = 1
             then (if height (staging_extent config) = 1 then VK_IMAGE_TYPE_3D - 1 - 1
                   else VK_IMAGE_TYPE_3D - 1)
             else VK_IMAGE_TYPE_3D);
          image_info = \<lparr>info_flags = 0, imageType = dimensions,
            info_format = staging_format config, info_extent = staging_extent config,
            mipLevels = staging_mip_levels config, arrayLayers = 1,
            samples = staging_sample_count config, info_usage = staging_usage config,
            initialLayout = eUndefined\<rparr>
       in if image_result env \<noteq> eSuccess
            then (Inl (Fails CouldNotCreateGpuImage), [VmaCreateImage image_info])
          else if new_image_allocation env = nullptr \<or> new_image env = nullptr
            then (Inl AssertFailed, [VmaCreateImage image_info])
          else (Inr \<lparr>staging_allocation = new_image_allocation env, staging_image = new_image env\<rparr>,
                [VmaCreateImage image_info]))"

text \<open>
  What the allocator and the device answer during \<^verbatim>\<open>GpuImage::create_result\<close>: the
  image creation, the view creation, and the helper that runs the layout
  transition.
\<close>

record image_create_env =
  staging_env :: image_env
  view_result :: VkResult
  new_view :: handle
  layout_submit :: stc_env

definition GpuImage_create_result :: "image_create_env \<Rightarrow> Engine \<Rightarrow> ImageConfig \<Rightarrow> (fault + GpuImage) \<times> Call list" where
  "GpuImage_create_result env engine config =
    (if device engine = nullptr \<or> allocator engine = nullptr
        \<or> width (config_extent config) = 0 \<or> height (config_extent config) = 0
        \<or> depth (config_extent config) = 0 \<or> config_format config = 0
        \<or> config_image_usage config = 0 \<or> config_aspect_flags config = 0
        \<or> config_sample_count config = 0 \<or> config_mip_levels config = 0
       then (Inl AssertFailed, [])
     else
       (case StagingGpuImage_create (staging_env env) engine
               \<lparr>staging_extent = config_extent config, staging_format = config_format config,
                staging_usage = config_image_usage config,
                staging_sample_count = config_sample_count config,
                staging_mip_levels = config_mip_levels config\<rparr> of
          (Inl (Fails e), calls) \<Rightarrow> (Inl (Fails CouldNotCreateGpuImage), calls)
        | (Inl f, calls) \<Rightarrow> (Inl f, calls)
        | (Inr staging, calls) \<Rightarrow>
            (let dimensions =
               (if depth (config_extent config) = 1
                then (if height (config_extent config) = 1 then ImageViewType_e3D - 1 - 1
                      else ImageViewType_e3D - 1)
                else ImageViewType_e3D);
               view_info = \<lparr>view_image = staging_image staging, viewType = dimensions,
                 view_format = config_format config,
                 view_subresourceRange =
                   ImageSubresourceRange (config_aspect_flags config) 0 (config_mip_levels config) 0 1\<rparr>;
               calls1 = calls @ [CreateImageView view_info];
               finish = (\<lambda>calls2.
                 if staging_allocation staging = nullptr \<or> staging_image staging = nullptr
                    \<or> new_view env = nullptr
                 then (Inl AssertFailed, calls2)
                 else (Inr \<lparr>image_allocation = staging_allocation staging,
                            image = staging_image staging, view = new_view env\<rparr>, calls2))
             in if view_result env \<noteq> eSuccess then (Inl (Fails CouldNotCreateGpuImageView), calls1)
                else if config_layout config \<noteq> eUndefined then
                  (case submit_single_time_commands (layout_submit env) engine
                          (build_and_run
                            (set_image_dst stage_eNone access_eNone (config_layout config)
                              (add_image_barrier (staging_image staging)
                                (ImageSubresourceRange eColor 0 1 0 1) []))) of
                     (Inl (Fails e), cmds) \<Rightarrow>
                       (Inl (Fails CouldNotCreateGpuImage), calls1 @ [Submit cmds])
                   | (Inl f, cmds) \<Rightarrow> (Inl f, calls1 @ [Submit cmds])
                   | (Inr u, cmds) \<Rightarrow> finish (calls1 @ [Submit cmds]))
                else finish calls1)))"

subsection \<open>Image layouts\<close>

text \<open>
  The layout of every subresource (mip level and array layer) of every image, as
  the device tracks it. A barrier moves the subresources of its range to its new
  layout; the other commands of the model leave layouts alone. A created image
  has all its subresources in the initial layout of its creation structure.
\<close>

type_synonym layouts = "handle \<Rightarrow> nat \<Rightarrow> nat \<Rightarrow> ImageLayout"

definition in_range :: "ImageSubresourceRange \<Rightarrow> nat \<Rightarrow> nat \<Rightarrow> bool" where
  "in_range r level layer \<longleftrightarrow>
     unat (baseMipLevel r) \<le> level \<and> level < unat (baseMipLevel r) + unat (levelCount r)
     \<and> unat (range_baseArrayLayer r) \<le> layer
     \<and> layer < unat (range_baseArrayLayer r) + unat (range_layerCount r)"

definition apply_barrier :: "ImageBarrier \<Rightarrow> layouts \<Rightarrow> layouts" where
  "apply_barrier b L =
     (\<lambda>img level layer.
        if img = barrier_image b \<and> in_range (subresourceRange b) level layer then newLayout b
        else L img level layer)"

fun layouts_after :: "Cmd list \<Rightarrow> layouts \<Rightarrow> layouts" where
  "layouts_after [] L = L"
| "layouts_after (PipelineBarrier2 bs # cs) L = layouts_after cs (fold apply_barrier bs L)"
| "layouts_after (c # cs) L = layouts_after cs L"

text \<open>The commands submitted, the views created and the barriers and regions recorded.\<close>

fun submitted_commands :: "Call list \<Rightarrow> Cmd list" where
  "submitted_commands [] = []"
| "submitted_commands (Submit cs # calls) = cs @ submitted_commands calls"
| "submitted_commands (c # calls) = submitted_commands calls"

fun created_views :: "Call list \<Rightarrow> ImageViewCreateInfo list" where
  "created_views [] = []"
| "created_views (CreateImageView v # calls) = v # created_views calls"
| "created_views (c # calls) = created_views calls"

fun created_images :: "Call list \<Rightarrow> ImageCreateInfo list" where
  "created_images [] = []"
| "created_images (VmaCreateImage i # calls) = i # created_images calls"
| "created_images (c # calls) = created_images calls"

fun barriers :: "Cmd list \<Rightarrow> ImageBarrier list" where
  "barriers [] = []"
| "barriers (PipelineBarrier2 bs # cs) = bs @ barriers cs"
| "barriers (c # cs) = barriers cs"

fun blit_regions :: "Cmd list \<Rightarrow> ImageBlit2 list" where
  "blit_regions [] = []"
| "blit_regions (BlitImage2 src src_layout dst dst_layout rs f # cs) = rs @ blit_regions cs"
| "blit_regions (c # cs) = blit_regions cs"

fun copy_image_regions :: "Cmd list \<Rightarrow> ImageCopy2 list" where
  "copy_image_regions [] = []"
| "copy_image_regions (CopyImage2 src src_layout dst dst_layout rs # cs) = rs @ copy_image_regions cs"
| "copy_image_regions (c # cs) = copy_image_regions cs"

text \<open>Concrete values: a colour image of 256 by 256 with nine mip levels.\<close>

definition image_create_ok :: image_create_env where
  "image_create_ok = \<lparr>staging_env = \<lparr>image_result = eSuccess, new_image = 60, new_image_allocation = 61\<rparr>,
     view_result = eSuccess, new_view = 62, layout_submit = stc_ok\<rparr>"

definition image_config0 :: ImageConfig where
  "image_config0 = \<lparr>config_extent = Extent3D 256 256 1, config_format = eR8G8B8A8Srgb,
     config_image_usage = 6, config_aspect_flags = eColor,
     config_layout = eShaderReadOnlyOptimal, config_sample_count = 1, config_mip_levels = 9\<rparr>"

section \<open>Mip chain generation\<close>

text \<open>
  Division of \<^verbatim>\<open>i32\<close> values as the language does it, truncating towards zero.
\<close>

definition i32_div :: "i32 \<Rightarrow> i32 \<Rightarrow> i32" where
  "i32_div a b = word_of_int (sint a sdiv sint b)"

text \<open>
  One pass of the loop body over \<^verbatim>\<open>mip_offset\<close>: each axis that is greater than 1 is
  divided by 2, the others are left alone.
\<close>

definition next_mip_offset :: "Offset3D \<Rightarrow> Offset3D" where
  "next_mip_offset mip_offset =
    (let m1 = (if 1 <s offset_x mip_offset
               then Offset3D (i32_div (offset_x mip_offset) 2) (offset_y mip_offset) (offset_z mip_offset)
               else mip_offset);
         m2 = (if 1 <s offset_y m1
               then Offset3D (offset_x m1) (i32_div (offset_y m1) 2) (offset_z m1)
               else m1);
         m3 = (if 1 <s offset_z m2
               then Offset3D (offset_x m2) (offset_y m2) (i32_div (offset_z m2) 2)
               else m2)
     in m3)"

text \<open>
  The loop \<^verbatim>\<open>for (u32 level = 0; level < mip_levels - 1; ++level)\<close>, from the
  iteration at \<open>level\<close> on: the commands it records.
\<close>

function mip_loop :: "handle \<Rightarrow> u32 \<Rightarrow> u32 \<Rightarrow> Offset3D \<Rightarrow> Cmd list" where
  "mip_loop img mip_levels level mip_offset =
    (if level < mip_levels - 1 then
       build_and_run
         (set_image_dst stage_eTransfer access_eTransferWrite eTransferDstOptimal
           (add_image_barrier img (ImageSubresourceRange eColor (level + 1) 1 0 1) []))
       @ [BlitImage2 img eTransferSrcOptimal img eTransferDstOptimal
            [\<lparr>blit_srcSubresource = ImageSubresourceLayers eColor level 0 1,
              srcOffsets0 = Offset3D 0 0 0,
              srcOffsets1 = mip_offset,
              blit_dstSubresource = ImageSubresourceLayers eColor (level + 1) 0 1,
              dstOffsets0 = Offset3D 0 0 0,
              dstOffsets1 = next_mip_offset mip_offset\<rparr>]
            eLinear]
       @ build_and_run
           (set_image_dst stage_eTransfer access_eTransferRead eTransferSrcOptimal
             (set_image_src stage_eTransfer access_eTransferWrite eTransferDstOptimal
               (add_image_barrier img (ImageSubresourceRange eColor (level + 1) 1 0 1) [])))
       @ mip_loop img mip_levels (level + 1) (next_mip_offset mip_offset)
     else [])"
  by pat_completeness auto
termination
proof (relation "measure (\<lambda>(img, mip_levels, level, mip_offset). unat (mip_levels - 1) - unat level)")
  show "wf (measure (\<lambda>(img, mip_levels, level, mip_offset). unat (mip_levels - 1) - unat level))"
    by simp
next
  fix img :: handle and mip_levels level :: u32 and mip_offset :: Offset3D
  assume lt: "level < mip_levels - 1"
  then have less: "unat level < unat (mip_levels - 1)"
    by (simp add: word_less_nat_alt)
  have "unat (mip_levels - 1) < 2 ^ LENGTH(32)"
    by (rule unsigned_less)
  with less have "unat level + unat (1 :: u32) < 2 ^ LENGTH(32)"
    by simp
  then have "unat (level + 1) = unat level + unat (1 :: u32)"
    by (simp only: unat_add_lem)
  then have "unat (level + 1) = unat level + 1"
    by simp
  with less show "((img, mip_levels, level + 1, next_mip_offset mip_offset),
          (img, mip_levels, level, mip_offset))
        \<in> measure (\<lambda>(img, mip_levels, level, mip_offset). unat (mip_levels - 1) - unat level)"
    by simp
qed

declare mip_loop.simps [simp del]

text \<open>
  The commands recorded by the closure of \<^verbatim>\<open>generate_mipmaps_result\<close>. \<open>to_i32\<close> is
  the conversion helper of the same name, which comes from a header that is not
  among the sources; it is a parameter.
\<close>

definition generate_mipmaps_commands :: "(u32 \<Rightarrow> i32) \<Rightarrow> handle \<Rightarrow> u32 \<Rightarrow> Extent3D \<Rightarrow> ImageLayout \<Rightarrow> Cmd list" where
  "generate_mipmaps_commands to_i32 img mip_levels ext final_layout =
    build_and_run
      (set_image_dst stage_eTransfer access_eTransferRead eTransferSrcOptimal
        (add_image_barrier img (ImageSubresourceRange eColor 0 1 0 1) []))
    @ mip_loop img mip_levels 0 (Offset3D (to_i32 (width ext)) (to_i32 (height ext)) (to_i32 (depth ext)))
    @ build_and_run
        (set_image_dst stage_eNone access_eNone final_layout
          (set_image_src stage_eTransfer access_eTransferRead eTransferSrcOptimal
            (add_image_barrier img (ImageSubresourceRange eColor 0 mip_levels 0 1) [])))"

text \<open>
  What the device answers during \<^verbatim>\<open>generate_mipmaps_result\<close>: the features of the
  format under optimal tiling, and the helper.
\<close>

record mipmap_env =
  optimalTilingFeatures :: u32
  mipmap_submit :: stc_env

definition generate_mipmaps_result :: "(u32 \<Rightarrow> i32) \<Rightarrow> mipmap_env \<Rightarrow> Engine \<Rightarrow> GpuImage \<Rightarrow> u32 \<Rightarrow> Extent3D \<Rightarrow> u32 \<Rightarrow> ImageLayout \<Rightarrow> (fault + unit) \<times> Call list" where
  "generate_mipmaps_result to_i32 env engine g mip_levels ext format final_layout =
    (if gpu engine = nullptr \<or> image g = nullptr \<or> \<not> 1 < mip_levels
        \<or> width ext = 0 \<or> height ext = 0 \<or> depth ext = 0
        \<or> format = 0 \<or> final_layout = eUndefined
       then (Inl AssertFailed, [])
     else if optimalTilingFeatures env AND eSampledImageFilterLinear = 0
       then (Inl (Fails CouldNotGenerateMipmaps), [])
     else
       (case submit_single_time_commands (mipmap_submit env) engine
               (generate_mipmaps_commands to_i32 (image g) mip_levels ext final_layout) of
          (Inl (Fails e), cmds) \<Rightarrow> (Inl (Fails CouldNotGenerateMipmaps), [Submit cmds])
        | (Inl f, cmds) \<Rightarrow> (Inl f, [Submit cmds])
        | (Inr u, cmds) \<Rightarrow> (Inr (), [Submit cmds])))"

text \<open>
  The spec's description of one level step on one axis: halved by integer
  division, with a floor of 1.
\<close>

definition halved_floor_1 :: "int \<Rightarrow> int" where
  "halved_floor_1 d = max 1 (d div 2)"

text \<open>Concrete values for the examples.\<close>

definition mipmap_ok :: mipmap_env where
  "mipmap_ok = \<lparr>optimalTilingFeatures = 0x1000, mipmap_submit = stc_ok\<rparr>"

definition image0 :: GpuImage where
  "image0 = \<lparr>image_allocation = 61, image = 60, view = 62\<rparr>"

text \<open>
  The blit regions of a mip generation, and the dimensions of an offset read as
  signed numbers. \<open>halved_dims\<close> is the spec's step on the three axes.
\<close>

definition mip_blits :: "Call list \<Rightarrow> ImageBlit2 list" where
  "mip_blits calls = blit_regions (submitted_commands calls)"

definition offset_dims :: "Offset3D \<Rightarrow> int \<times> int \<times> int" where
  "offset_dims v = (sint (offset_x v), sint (offset_y v), sint (offset_z v))"

fun halved_dims :: "int \<times> int \<times> int \<Rightarrow> int \<times> int \<times> int" where
  "halved_dims (w, h, d) = (halved_floor_1 w, halved_floor_1 h, halved_floor_1 d)"

fun positive_dims :: "int \<times> int \<times> int \<Rightarrow> bool" where
  "positive_dims (w, h, d) \<longleftrightarrow> 0 < w \<and> 0 < h \<and> 0 < d"

definition calls17 :: "Call list" where
  "calls17 = snd (generate_mipmaps_result (\<lambda>v. v) mipmap_ok engine0 image0 7 (Extent3D 17 5 1)
     eR8G8B8A8Srgb eShaderReadOnlyOptimal)"

section \<open>Cubemap assembly\<close>

text \<open>
  \<^verbatim>\<open>ImageData\<close> comes from the asset-decoding collaborator. Its width and height are
  signed: the code converts them with \<^verbatim>\<open>to_u32\<close> for the extent and uses them as
  they are in the signed offsets.
\<close>

record ImageData =
  data_width :: i32
  data_height :: i32
  pixels :: "u8 list"

text \<open>
  What the collaborators answer during \<^verbatim>\<open>create_cubemap\<close>, in call order: the image
  loader, the creation of the staging image, the upload of the pixels into it by
  \<^verbatim>\<open>StagingGpuImage::write\<close> (of which only the result matters here), the creation
  of the cube image and of its view, and the helper.
\<close>

record cubemap_env =
  load_result :: "Err + ImageData"
  cube_staging :: image_env
  cube_staging_write :: "fault + unit"
  cube_image :: image_env
  cube_view_result :: VkResult
  cube_new_view :: handle
  cube_submit :: stc_env

text \<open>The six regions of the closure, as the source lists them.\<close>

definition cubemap_copies :: "ImageData \<Rightarrow> Extent3D \<Rightarrow> ImageCopy2 list" where
  "cubemap_copies data ext =
    [\<lparr>srcSubresource = ImageSubresourceLayers eColor 0 0 1,
      copy_srcOffset = Offset3D (i32_div (data_width data * 2) 4) (i32_div (data_height data * 1) 3) 0,
      dstSubresource = ImageSubresourceLayers eColor 0 0 1,
      copy_dstOffset = Offset3D 0 0 0, extent = ext\<rparr>,
     \<lparr>srcSubresource = ImageSubresourceLayers eColor 0 0 1,
      copy_srcOffset = Offset3D (i32_div (data_width data * 0) 4) (i32_div (data_height data * 1) 3) 0,
      dstSubresource = ImageSubresourceLayers eColor 0 1 1,
      copy_dstOffset = Offset3D 0 0 0, extent = ext\<rparr>,
     \<lparr>srcSubresource = ImageSubresourceLayers eColor 0 0 1,
      copy_srcOffset = Offset3D (i32_div (data_width data * 1) 4) (i32_div (data_height data * 0) 3) 0,
      dstSubresource = ImageSubresourceLayers eColor 0 2 1,
      copy_dstOffset = Offset3D 0 0 0, extent = ext\<rparr>,
     \<lparr>srcSubresource = ImageSubresourceLayers eColor 0 0 1,
      copy_srcOffset = Offset3D (i32_div (data_width data * 1) 4) (i32_div (data_height data * 2) 3) 0,
      dstSubresource = ImageSubresourceLayers eColor 0 3 1,
      copy_dstOffset = Offset3D 0 0 0, extent = ext\<rparr>,
     \<lparr>srcSubresource = ImageSubresourceLayers eColor 0 0 1,
      copy_srcOffset = Offset3D (i32_div (data_width data * 1) 4) (i32_div (data_height data * 1) 3) 0,
      dstSubresource = ImageSubresourceLayers eColor 0 4 1,
      copy_dstOffset = Offset3D 0 0 0, extent = ext\<rparr>,
     \<lparr>srcSubresource = ImageSubresourceLayers eColor 0 0 1,
      copy_srcOffset = Offset3D (i32_div (data_width data * 3) 4) (i32_div (data_height data * 1) 3) 0,
      dstSubresource = ImageSubresourceLayers eColor 0 5 1,
      copy_dstOffset = Offset3D 0 0 0, extent = ext\<rparr>]"

definition cubemap_commands :: "ImageData \<Rightarrow> StagingGpuImage \<Rightarrow> handle \<Rightarrow> Extent3D \<Rightarrow> Cmd list" where
  "cubemap_commands data staging img ext =
    build_and_run
      (set_image_dst stage_eTransfer access_eTransferWrite eTransferDstOptimal
        (add_image_barrier img (ImageSubresourceRange eColor 0 1 0 6) []))
    @ [CopyImage2 (staging_image staging) eTransferSrcOptimal img eTransferDstOptimal
         (cubemap_copies data ext)]
    @ build_and_run
        (set_image_dst stage_eFragmentShader access_eShaderRead eShaderReadOnlyOptimal
          (set_image_src stage_eTransfer access_eTransferWrite eTransferDstOptimal
            (add_image_barrier img (ImageSubresourceRange eColor 0 1 0 6) [])))"

text \<open>
  \<open>to_u32\<close> is the conversion helper of that name and \<open>defaults\<close> holds the
  default member initialisers of \<^verbatim>\<open>StagingGpuImage::Config\<close> (the code sets the
  extent, format and usage only); both come from headers that are not among the
  sources and are parameters. The \<^verbatim>\<open>defer\<close> destroys the staging image on every
  return after its creation.
\<close>

definition create_cubemap :: "(i32 \<Rightarrow> u32) \<Rightarrow> StagingConfig \<Rightarrow> cubemap_env \<Rightarrow> Engine \<Rightarrow> string \<Rightarrow> (fault + GpuImage) \<times> Call list" where
  "create_cubemap to_u32 defaults env engine path =
    (if device engine = nullptr \<or> allocator engine = nullptr \<or> path = [] then (Inl AssertFailed, [])
     else case load_result env of
       Inl e \<Rightarrow> (Inl (Fails e), [])
     | Inr data \<Rightarrow>
        (let staging_ext = Extent3D (to_u32 (data_width data)) (to_u32 (data_height data)) 1 in
         case StagingGpuImage_create (cube_staging env) engine
                (defaults\<lparr>staging_extent := staging_ext, staging_format := eR8G8B8A8Srgb,
                   staging_usage := VK_IMAGE_USAGE_TRANSFER_DST_BIT OR VK_IMAGE_USAGE_TRANSFER_SRC_BIT\<rparr>) of
           (Inl f, calls) \<Rightarrow> (Inl f, calls)
         | (Inr staging, calls) \<Rightarrow>
            (let (r, calls3) =
               (case cube_staging_write env of
                  Inl f \<Rightarrow> (Inl f, calls)
                | Inr u \<Rightarrow>
                   (let ext = Extent3D (width staging_ext div 4) (height staging_ext div 3) 1;
                        image_info = \<lparr>info_flags = VK_IMAGE_CREATE_CUBE_COMPATIBLE_BIT,
                          imageType = VK_IMAGE_TYPE_2D, info_format = eR8G8B8A8Srgb,
                          info_extent = ext, mipLevels = 1, arrayLayers = 6,
                          samples = VK_SAMPLE_COUNT_1_BIT,
                          info_usage = VK_IMAGE_USAGE_TRANSFER_DST_BIT OR VK_IMAGE_USAGE_SAMPLED_BIT,
                          initialLayout = eUndefined\<rparr>;
                        calls1 = calls @ [VmaCreateImage image_info]
                    in if image_result (cube_image env) \<noteq> eSuccess
                         then (Inl (Fails CouldNotCreateGpuImage), calls1)
                       else
                         (let img = new_image (cube_image env);
                              view_info = \<lparr>view_image = img, viewType = ImageViewType_eCube,
                                view_format = eR8G8B8A8Srgb,
                                view_subresourceRange = ImageSubresourceRange eColor 0 1 0 6\<rparr>;
                              calls2 = calls1 @ [CreateImageView view_info]
                          in if cube_view_result env \<noteq> eSuccess
                               then (Inl (Fails CouldNotCreateGpuImageView), calls2)
                             else
                               (case submit_single_time_commands (cube_submit env) engine
                                       (cubemap_commands data staging img ext) of
                                  (Inl (Fails e), cmds) \<Rightarrow>
                                    (Inl (Fails CouldNotWriteGpuImage), calls2 @ [Submit cmds])
                                | (Inl f, cmds) \<Rightarrow> (Inl f, calls2 @ [Submit cmds])
                                | (Inr u, cmds) \<Rightarrow>
                                    if new_image_allocation (cube_image env) = nullptr \<or> img = nullptr
                                       \<or> cube_new_view env = nullptr
                                    then (Inl AssertFailed, calls2 @ [Submit cmds])
                                    else (Inr \<lparr>image_allocation = new_image_allocation (cube_image env),
                                               image = img, view = cube_new_view env\<rparr>,
                                          calls2 @ [Submit cmds])))))
             in (r, calls3 @ [DestroyStagingImage staging]))))"

text \<open>
  The cells of the 4 by 3 cross, as (column, row), that hold the faces +X, -X, +Y,
  -Y, +Z, -Z in the standard horizontal cross: the middle row is -X, +Z, +X, -Z
  from left to right, +Y is above +Z and -Y is below it.
\<close>

definition cross_cells :: "(i32 \<times> i32) list" where
  "cross_cells = [(2, 1), (0, 1), (1, 0), (1, 2), (1, 1), (3, 1)]"

text \<open>Concrete values: a cross of 2048 by 1536 pixels, that is cells of 512 by 512.\<close>

definition cross_data :: ImageData where
  "cross_data = \<lparr>data_width = 2048, data_height = 1536, pixels = []\<rparr>"

definition staging_defaults :: StagingConfig where
  "staging_defaults = \<lparr>staging_extent = Extent3D 0 0 0, staging_format = 0, staging_usage = 0,
     staging_sample_count = 1, staging_mip_levels = 1\<rparr>"

definition cubemap_ok :: cubemap_env where
  "cubemap_ok = \<lparr>load_result = Inr cross_data,
     cube_staging = \<lparr>image_result = eSuccess, new_image = 70, new_image_allocation = 71\<rparr>,
     cube_staging_write = Inr (),
     cube_image = \<lparr>image_result = eSuccess, new_image = 72, new_image_allocation = 73\<rparr>,
     cube_view_result = eSuccess, cube_new_view = 74, cube_submit = stc_ok\<rparr>"

definition cube_calls :: "Call list" where
  "cube_calls = snd (create_cubemap (\<lambda>v. v) staging_defaults cubemap_ok engine0 ''cross.png'')"

section \<open>Theorems: the frame state machine\<close>


lemma begin_frame_index: "m_current_frame_index (snd (begin_frame b engine w)) = m_current_frame_index w"
  by (simp add: begin_frame_def Let_def)

lemma end_frame_index_ok:
  "fst (end_frame N e engine w) = Inr () \<Longrightarrow>
   m_current_frame_index (snd (end_frame N e engine w)) = (m_current_frame_index w + 1) mod N"
  by (simp add: end_frame_def Let_def split: if_splits)

lemma end_frame_index_fail:
  "fst (end_frame N e engine w) \<noteq> Inr () \<Longrightarrow>
   m_current_frame_index (snd (end_frame N e engine w)) = m_current_frame_index w"
  by (auto simp: end_frame_def Let_def split: if_splits)

lemma frame_cycles_index:
  "m_current_frame_index w < N \<Longrightarrow> fst (frame_cycles N envs engine w) = Inr () \<Longrightarrow>
   m_current_frame_index (snd (frame_cycles N envs engine w)) = (m_current_frame_index w + length envs) mod N"
proof (induction envs arbitrary: w)
  case Nil
  then show ?case by simp
next
  case (Cons be envs)
  obtain b e where be: "be = (b, e)" by (cases be)
  obtain r1 w1 where bf: "begin_frame b engine w = (r1, w1)" by (cases "begin_frame b engine w")
  from Cons.prems(2) be bf obtain cmd where r1: "r1 = Inr cmd"
    by (cases r1) auto
  obtain r2 w2 where ef: "end_frame N e engine w1 = (r2, w2)" by (cases "end_frame N e engine w1")
  from Cons.prems(2) be bf r1 ef have r2: "r2 = Inr ()"
    by (cases r2) auto
  have i1: "m_current_frame_index w1 = m_current_frame_index w"
    using begin_frame_index [of b engine w] bf by simp
  have i2: "m_current_frame_index w2 = (m_current_frame_index w + 1) mod N"
    using end_frame_index_ok [of N e engine w1] ef r2 i1 by simp
  have N: "0 < N" using Cons.prems(1) by simp
  then have lt: "m_current_frame_index w2 < N" using i2 by simp
  have rest: "frame_cycles N (be # envs) engine w = frame_cycles N envs engine w2"
    using be bf r1 ef r2 by simp
  have "m_current_frame_index (snd (frame_cycles N envs engine w2)) = (m_current_frame_index w2 + length envs) mod N"
    using Cons.IH [OF lt] Cons.prems(2) rest by simp
  then show ?case using rest i2 by (simp add: mod_simps ac_simps)
qed

text \<open>
  C1 (as amended). A call of \<^verbatim>\<open>end_frame\<close> that succeeds advances the frame slot index
  modulo \<open>N\<close>; a call that does not succeed (an out-of-date presentation
  included) leaves the index as it was; and \<open>N\<close> consecutive successful
  \<^verbatim>\<open>begin_frame\<close> / \<^verbatim>\<open>end_frame\<close> cycles bring the index back to its starting value.
\<close>

theorem end_frame_advances_on_success:
  "(fst (end_frame N e engine w) = Inr () \<longrightarrow>
      m_current_frame_index (snd (end_frame N e engine w)) = (m_current_frame_index w + 1) mod N)
   \<and> (fst (end_frame N e engine w) \<noteq> Inr () \<longrightarrow>
      m_current_frame_index (snd (end_frame N e engine w)) = m_current_frame_index w)
   \<and> (m_current_frame_index w < N \<longrightarrow> length envs = N \<longrightarrow>
      fst (frame_cycles N envs engine w) = Inr () \<longrightarrow>
      m_current_frame_index (snd (frame_cycles N envs engine w)) = m_current_frame_index w)"
  using end_frame_index_ok [of N e engine w] end_frame_index_fail [of N e engine w]
    frame_cycles_index [of w N envs engine]
  by simp

text \<open>The theorem at two frames in flight: a success, a failed submission, two cycles.\<close>

theorem end_frame_advances_on_success_witness:
  "fst (end_frame 2 end_ok engine0 (window0\<lparr>m_recording := True\<rparr>)) = Inr ()
   \<and> m_current_frame_index (snd (end_frame 2 end_ok engine0 (window0\<lparr>m_recording := True\<rparr>))) = 1
   \<and> fst (end_frame 2 (end_ok\<lparr>submit_result := eErrorDeviceLost\<rparr>) engine0 (window0\<lparr>m_recording := True\<rparr>)) \<noteq> Inr ()
   \<and> m_current_frame_index (snd (end_frame 2 (end_ok\<lparr>submit_result := eErrorDeviceLost\<rparr>) engine0 (window0\<lparr>m_recording := True\<rparr>))) = 0
   \<and> fst (frame_cycles 2 [(begin_ok, end_ok), (begin_ok, end_ok)] engine0 window0) = Inr ()
   \<and> m_current_frame_index (snd (frame_cycles 2 [(begin_ok, end_ok), (begin_ok, end_ok)] engine0 window0)) = 0"
proof -
  have a: "fst (end_frame 2 end_ok engine0 (window0\<lparr>m_recording := True\<rparr>)) = Inr ()"
    by (simp add: end_frame_def end_ok_def engine0_def window0_def current_cmd_def
        is_image_available_def is_ready_to_present_def slot_def nullptr_def Let_def)
  have b: "fst (end_frame 2 (end_ok\<lparr>submit_result := eErrorDeviceLost\<rparr>) engine0 (window0\<lparr>m_recording := True\<rparr>)) \<noteq> Inr ()"
    by (simp add: end_frame_def end_ok_def engine0_def window0_def current_cmd_def
        is_image_available_def is_ready_to_present_def slot_def nullptr_def Let_def)
  have c: "fst (frame_cycles 2 [(begin_ok, end_ok), (begin_ok, end_ok)] engine0 window0) = Inr ()"
    by (simp add: begin_frame_def end_frame_def begin_ok_def end_ok_def engine0_def window0_def
        current_cmd_def is_frame_finished_def
        is_image_available_def is_ready_to_present_def slot_def nullptr_def Let_def)
  have i: "m_current_frame_index window0 = 0" "m_current_frame_index (window0\<lparr>m_recording := True\<rparr>) = 0"
    by (simp_all add: window0_def)
  show ?thesis
    using a b c i
      end_frame_advances_on_success [of 2 end_ok engine0 "window0\<lparr>m_recording := True\<rparr>" "[(begin_ok, end_ok), (begin_ok, end_ok)]"]
      end_frame_advances_on_success [of 2 "end_ok\<lparr>submit_result := eErrorDeviceLost\<rparr>" engine0 "window0\<lparr>m_recording := True\<rparr>" "[]"]
      end_frame_advances_on_success [of 2 end_ok engine0 window0 "[(begin_ok, end_ok), (begin_ok, end_ok)]"]
    by simp
qed

text \<open>
  C1 as stated fails: with two frames in flight and the index at 0, a presentation
  that reports "out of date" returns \<^verbatim>\<open>Err::InvalidWindowSize\<close> and the index stays 0.
\<close>

theorem end_frame_out_of_date_counterexample:
  "fst (end_frame 2 (end_ok\<lparr>present_result := eErrorOutOfDateKHR\<rparr>) engine0 (window0\<lparr>m_recording := True\<rparr>))
     = Inl (Fails InvalidWindowSize)
   \<and> m_current_frame_index (snd (end_frame 2 (end_ok\<lparr>present_result := eErrorOutOfDateKHR\<rparr>) engine0
        (window0\<lparr>m_recording := True\<rparr>)))
     \<noteq> (m_current_frame_index (window0\<lparr>m_recording := True\<rparr>) + 1) mod 2"
  by (simp add: end_frame_def end_ok_def engine0_def window0_def current_cmd_def
        is_image_available_def is_ready_to_present_def slot_def nullptr_def Let_def)

text \<open>
  C2 (as amended). When its assertions hold, \<^verbatim>\<open>begin_frame\<close> fails in exactly four
  cases: the fence wait does not return success (a timeout included), the fence
  reset fails, the image acquisition returns anything but success (a surface out
  of date included), or the command buffer's begin fails; each case has its own
  error tag.
\<close>

theorem begin_frame_failure_cases:
  assumes "\<not> m_recording w" and "current_cmd w \<noteq> nullptr" and "is_frame_finished w \<noteq> nullptr"
    and "is_image_available w \<noteq> nullptr" and "device engine \<noteq> nullptr"
  shows "((\<exists>f. fst (begin_frame env engine w) = Inl f) \<longleftrightarrow>
            wait_result env \<noteq> eSuccess \<or> reset_result env \<noteq> eSuccess
            \<or> acquire_result env \<noteq> eSuccess \<or> begin_result env \<noteq> eSuccess)
    \<and> (wait_result env \<noteq> eSuccess \<longrightarrow>
          fst (begin_frame env engine w) = Inl (Fails CouldNotWaitForVkFence))
    \<and> (wait_result env = eSuccess \<longrightarrow> reset_result env \<noteq> eSuccess \<longrightarrow>
          fst (begin_frame env engine w) = Inl (Fails VulkanFailure))
    \<and> (wait_result env = eSuccess \<longrightarrow> reset_result env = eSuccess \<longrightarrow>
          acquire_result env \<noteq> eSuccess \<longrightarrow>
          fst (begin_frame env engine w) = Inl (Fails CouldNotAcquireVkSwapchainImage))
    \<and> (wait_result env = eSuccess \<longrightarrow> reset_result env = eSuccess \<longrightarrow>
          acquire_result env = eSuccess \<longrightarrow> begin_result env \<noteq> eSuccess \<longrightarrow>
          fst (begin_frame env engine w) = Inl (Fails CouldNotBeginVkCommandBuffer))"
  using assms by (simp add: begin_frame_def Let_def)

lemma window0_pre:
  "\<not> m_recording window0" "current_cmd window0 \<noteq> nullptr" "is_frame_finished window0 \<noteq> nullptr"
  "is_image_available window0 \<noteq> nullptr" "device engine0 \<noteq> nullptr"
  by (simp_all add: window0_def engine0_def current_cmd_def is_frame_finished_def
      is_image_available_def slot_def nullptr_def)

text \<open>The theorem at each of the four failures and at a frame that begins.\<close>

theorem begin_frame_failure_cases_witness:
  "(\<exists>f. fst (begin_frame (begin_ok\<lparr>acquire_result := eErrorOutOfDateKHR\<rparr>) engine0 window0) = Inl f)
   \<and> fst (begin_frame (begin_ok\<lparr>acquire_result := eErrorOutOfDateKHR\<rparr>) engine0 window0)
       = Inl (Fails CouldNotAcquireVkSwapchainImage)
   \<and> fst (begin_frame (begin_ok\<lparr>wait_result := eTimeout\<rparr>) engine0 window0)
       = Inl (Fails CouldNotWaitForVkFence)
   \<and> fst (begin_frame (begin_ok\<lparr>reset_result := eErrorOutOfDeviceMemory\<rparr>) engine0 window0)
       = Inl (Fails VulkanFailure)
   \<and> fst (begin_frame (begin_ok\<lparr>begin_result := eErrorOutOfHostMemory\<rparr>) engine0 window0)
       = Inl (Fails CouldNotBeginVkCommandBuffer)
   \<and> \<not> (\<exists>f. fst (begin_frame begin_ok engine0 window0) = Inl f)"
  using begin_frame_failure_cases [OF window0_pre, of "begin_ok\<lparr>acquire_result := eErrorOutOfDateKHR\<rparr>"]
    begin_frame_failure_cases [OF window0_pre, of "begin_ok\<lparr>wait_result := eTimeout\<rparr>"]
    begin_frame_failure_cases [OF window0_pre, of "begin_ok\<lparr>reset_result := eErrorOutOfDeviceMemory\<rparr>"]
    begin_frame_failure_cases [OF window0_pre, of "begin_ok\<lparr>begin_result := eErrorOutOfHostMemory\<rparr>"]
    begin_frame_failure_cases [OF window0_pre, of begin_ok]
  by (simp add: begin_ok_def)

text \<open>
  C2 as stated fails twice: an acquisition that reports "surface out of date" and
  nothing else wrong makes \<^verbatim>\<open>begin_frame\<close> return
  \<^verbatim>\<open>Err::CouldNotAcquireVkSwapchainImage\<close>, and a failed fence reset, which is none of
  the three listed cases, makes it return \<^verbatim>\<open>Err::VulkanFailure\<close>.
\<close>

theorem begin_frame_out_of_date_counterexample:
  "fst (begin_frame (begin_ok\<lparr>acquire_result := eErrorOutOfDateKHR\<rparr>) engine0 window0)
     = Inl (Fails CouldNotAcquireVkSwapchainImage)
   \<and> fst (begin_frame (begin_ok\<lparr>reset_result := eErrorOutOfDeviceMemory\<rparr>) engine0 window0)
     = Inl (Fails VulkanFailure)"
  by (simp add: begin_frame_def begin_ok_def window0_def engine0_def current_cmd_def
      is_frame_finished_def is_image_available_def slot_def nullptr_def Let_def)

section \<open>Theorems: device selection\<close>

lemma strcmp_eq_0_iff: "strcmp a b = 0 \<longleftrightarrow> a = b"
  by (induction a b rule: strcmp.induct) auto

text \<open>
  The extension test of \<^verbatim>\<open>find_gpu\<close> passes the \<^verbatim>\<open>strcmp\<close> value itself to
  \<^verbatim>\<open>any_of\<close>, so a required name counts as found when some enumerated name differs
  from it.
\<close>

lemma extension_test_differs:
  "list_ex (\<lambda>extension. strcmp required extension \<noteq> 0) exts \<longleftrightarrow> (\<exists>e \<in> set exts. e \<noteq> required)"
  by (auto simp: list_ex_iff strcmp_eq_0_iff)

text \<open>
  C3, the code at the failing input. A device with the two features and a combined
  queue family whose extension list holds none of the three required names is
  returned by \<^verbatim>\<open>find_gpu\<close>.
\<close>

theorem find_gpu_selects_device_without_extensions:
  "find_gpu engine0 eSuccess [gpu_without_extensions] = Inr gpu_without_extensions
   \<and> set DeviceExtensions \<inter> set (extensions_value gpu_without_extensions) = {}"
  by (simp add: find_gpu_def engine0_def nullptr_def gpu_without_extensions_def DeviceExtensions_def
      find_queue_family_def eGraphics_def eCompute_def Let_def)

text \<open>
  The queue family test of \<^verbatim>\<open>find_queue_family\<close> converts the masked flags to
  \<^verbatim>\<open>bool\<close>, so a family passes when it has the graphics bit or the compute bit.
\<close>

lemma find_if_first:
  "find_if P xs \<le> length xs"
  "find_if P xs < length xs \<Longrightarrow> P (xs ! find_if P xs)"
  "j < find_if P xs \<Longrightarrow> \<not> P (xs ! j)"
proof -
  show "find_if P xs \<le> length xs"
    by (induction xs) auto
  show "find_if P xs < length xs \<Longrightarrow> P (xs ! find_if P xs)"
    by (induction xs) (auto split: if_splits)
  show "j < find_if P xs \<Longrightarrow> \<not> P (xs ! j)"
  proof (induction xs arbitrary: j)
    case Nil
    then show ?case by simp
  next
    case (Cons x xs)
    then show ?case by (cases j) (auto split: if_splits)
  qed
qed

lemma find_queue_family_first_with_either_bit:
  assumes "find_queue_family g = Inr i"
  defines "k \<equiv> find_if (\<lambda>family. queueFlags family AND (eGraphics OR eCompute) \<noteq> 0) (queue_families g)"
  shows "i = of_nat k" and "k < length (queue_families g)"
    and "queueFlags (queue_families g ! k) AND (eGraphics OR eCompute) \<noteq> 0"
    and "\<forall>j < k. queueFlags (queue_families g ! j) AND (eGraphics OR eCompute) = 0"
proof -
  from assms show "i = of_nat k"
    by (auto simp: find_queue_family_def Let_def split: if_splits)
  from assms have "k \<noteq> length (queue_families g)"
    by (auto simp: find_queue_family_def Let_def split: if_splits)
  then show lt: "k < length (queue_families g)"
    using find_if_first(1) [of "\<lambda>family. queueFlags family AND (eGraphics OR eCompute) \<noteq> 0" "queue_families g"]
    by (simp add: k_def)
  show "queueFlags (queue_families g ! k) AND (eGraphics OR eCompute) \<noteq> 0"
    using find_if_first(2) [of "\<lambda>family. queueFlags family AND (eGraphics OR eCompute) \<noteq> 0" "queue_families g"] lt
    by (simp add: k_def)
  show "\<forall>j < k. queueFlags (queue_families g ! j) AND (eGraphics OR eCompute) = 0"
    using find_if_first(3) [of _ "\<lambda>family. queueFlags family AND (eGraphics OR eCompute) \<noteq> 0" "queue_families g"]
    by (auto simp: k_def)
qed

text \<open>
  C4, the code at the failing input. For a device whose only queue family has the
  compute and transfer bits and no graphics bit, \<^verbatim>\<open>find_queue_family\<close> returns index 0
  instead of \<^verbatim>\<open>Err::VkQueueFamilyUnavailable\<close>, and \<^verbatim>\<open>find_gpu\<close> selects the device.
\<close>

theorem find_queue_family_accepts_compute_only:
  "find_queue_family gpu_compute_only = Inr 0
   \<and> queueFlags (queue_families gpu_compute_only ! 0) AND eGraphics = 0
   \<and> find_gpu engine0 eSuccess [gpu_compute_only] = Inr gpu_compute_only"
  by (simp add: find_gpu_def engine0_def nullptr_def gpu_compute_only_def DeviceExtensions_def
      find_queue_family_def eGraphics_def eCompute_def Let_def)

section \<open>Theorems: buffer writes\<close>

lemma engine0_handles:
  "allocator engine0 \<noteq> nullptr" "device engine0 \<noteq> nullptr"
  "single_time_command_pool engine0 \<noteq> nullptr"
  by (simp_all add: engine0_def nullptr_def)

lemma submit_single_time_commands_outcome:
  "fst (submit_single_time_commands env engine commands) = single_time_outcome env engine"
  "single_time_outcome env engine = Inr () \<Longrightarrow>
     submit_single_time_commands env engine commands = (Inr (), commands)"
  by (auto simp: single_time_outcome_def submit_single_time_commands_def split: sum.splits)

lemma single_time_outcome_ok: "single_time_outcome stc_ok engine0 = Inr ()"
  by (simp add: single_time_outcome_def submit_single_time_commands_def
      begin_single_time_commands_def end_single_time_commands_def stc_ok_def engine0_def
      nullptr_def)

lemma device_runs_simps:
  "single_time_outcome env engine = Inl f \<Longrightarrow>
     device_runs (submit_single_time_commands env engine commands) s = (Inl f, s)"
  "single_time_outcome env engine = Inr () \<Longrightarrow>
     device_runs (submit_single_time_commands env engine commands) s =
       (case run_commands commands s of None \<Rightarrow> (Inl InvalidUsage, s) | Some s1 \<Rightarrow> (Inr (), s1))"
  by (auto simp: device_runs_def single_time_outcome_def submit_single_time_commands_def
      split: sum.splits)

text \<open>
  C9. A write to a Staging buffer at a non-zero offset fails the assertion; a write
  of 64 bytes to a 64-byte Staging buffer succeeds at offset 0, where the bytes
  are copied into the buffer's own allocation, and fails the assertion at offset 4;
  a write to a RandomAccess buffer succeeds at every offset that leaves the bytes
  inside the buffer.
\<close>

theorem staging_write_offset_must_be_zero:
  "(memory_type b = Staging \<longrightarrow> offset \<noteq> 0 \<longrightarrow>
      write_result env engine b data n offset s = (Inl AssertFailed, s))
   \<and> (memory_type b = Staging \<longrightarrow> allocator engine \<noteq> nullptr \<longrightarrow> allocation b \<noteq> nullptr \<longrightarrow>
      buffer b \<noteq> nullptr \<longrightarrow> copy_result env = eSuccess \<longrightarrow>
      allocations s (allocation b) = Some bytes \<longrightarrow> length bytes = 64 \<longrightarrow> length B = 64 \<longrightarrow>
        write_result env engine b (Some B) 64 0 s
          = (Inr (), s\<lparr>allocations := (allocations s)(allocation b \<mapsto> B)\<rparr>)
        \<and> write_result env engine b (Some B) 64 4 s = (Inl AssertFailed, s))
   \<and> (memory_type b = RandomAccess \<longrightarrow> allocator engine \<noteq> nullptr \<longrightarrow> allocation b \<noteq> nullptr \<longrightarrow>
      buffer b \<noteq> nullptr \<longrightarrow> copy_result env = eSuccess \<longrightarrow>
      allocations s (allocation b) = Some bytes \<longrightarrow> length B = n \<longrightarrow> 0 < n \<longrightarrow>
      offset + n \<le> length bytes \<longrightarrow>
        write_result env engine b (Some B) n offset s
          = (Inr (), s\<lparr>allocations := (allocations s)(allocation b \<mapsto>
               take offset bytes @ B @ drop (offset + n) bytes)\<rparr>))"
  by (simp add: write_result_def vmaCopyMemoryToAllocation_def)

text \<open>
  The theorem at the scenario of the spec: 64 bytes of \<open>0xFF\<close> into a Staging
  buffer of 64 bytes at offsets 0 and 4, and 8 bytes into a RandomAccess buffer at
  offset 4.
\<close>

theorem staging_write_offset_must_be_zero_witness:
  "write_result write_ok engine0 staging_buffer64 (Some (replicate 64 255)) 64 0 mem0
     = (Inr (), mem0\<lparr>allocations := (allocations mem0)(43 \<mapsto> replicate 64 255)\<rparr>)
   \<and> write_result write_ok engine0 staging_buffer64 (Some (replicate 64 255)) 64 4 mem0
     = (Inl AssertFailed, mem0)
   \<and> write_result write_ok engine0 random_buffer64 (Some (replicate 8 255)) 8 4 mem0
     = (Inr (), mem0\<lparr>allocations := (allocations mem0)(45 \<mapsto>
          replicate 4 0 @ replicate 8 255 @ replicate 52 0)\<rparr>)"
proof -
  have st: "memory_type staging_buffer64 = Staging" "allocation staging_buffer64 = 43"
    "allocation staging_buffer64 \<noteq> nullptr" "buffer staging_buffer64 \<noteq> nullptr"
    by (simp_all add: staging_buffer64_def nullptr_def)
  have ra: "memory_type random_buffer64 = RandomAccess" "allocation random_buffer64 = 45"
    "allocation random_buffer64 \<noteq> nullptr" "buffer random_buffer64 \<noteq> nullptr"
    by (simp_all add: random_buffer64_def nullptr_def)
  have m: "allocations mem0 43 = Some (replicate 64 0)" "allocations mem0 45 = Some (replicate 64 0)"
    by (simp_all add: mem0_def)
  have c: "copy_result write_ok = eSuccess"
    by (simp add: write_ok_def)
  show ?thesis
    using staging_write_offset_must_be_zero
      [of staging_buffer64 4 write_ok engine0 "Some (replicate 64 255)" 64 mem0
        "replicate 64 0" "replicate 64 255"]
      staging_write_offset_must_be_zero
      [of random_buffer64 4 write_ok engine0 "Some (replicate 8 255)" 8 mem0
        "replicate 64 0" "replicate 8 255"]
      st ra m c engine0_handles
    by simp
qed

text \<open>
  What \<^verbatim>\<open>write_result\<close> does get right on a DeviceLocal buffer: a failed creation of
  the staging buffer is reported with the creation's tag, and a failed helper with
  the write tag.
\<close>

lemma write_result_staging_creation_fails:
  assumes "memory_type b = DeviceLocal" and "allocator engine \<noteq> nullptr"
    and "allocation b \<noteq> nullptr" and "buffer b \<noteq> nullptr" and "0 < n"
    and "buffer_result (staging_create env) \<noteq> eSuccess"
  shows "write_result env engine b (Some B) n offset s = (Inl (Fails CouldNotCreateGpuBuffer), s)"
  using assms by (simp add: write_result_def create_result_def eTransferSrc_def)

lemma write_result_submit_fails:
  assumes "memory_type b = DeviceLocal" and "allocator engine \<noteq> nullptr"
    and "allocation b \<noteq> nullptr" and "buffer b \<noteq> nullptr" and "0 < n" and "n \<le> length B"
    and "buffer_result (staging_create env) = eSuccess"
    and "new_buffer (staging_create env) \<noteq> nullptr" and "new_allocation (staging_create env) \<noteq> nullptr"
    and "copy_result env = eSuccess"
    and "single_time_outcome (submit_env env) engine = Inl (Fails e)"
  shows "fst (write_result env engine b (Some B) n offset s) = Inl (Fails CouldNotWriteGpuBuffer)"
  using assms
  by (simp add: write_result_def create_result_def eTransferSrc_def Let_def
      vmaCopyMemoryToAllocation_def device_runs_simps)

text \<open>
  The staging buffer does not outlive the call: when the allocator hands out
  non-null handles that are not live, the live allocations and buffers after
  \<^verbatim>\<open>write_result\<close> are those before it, on every path.
\<close>

lemma create_result_live:
  assumes "create_result cenv engine config s = (r, s1)"
  shows "(\<exists>g. r = Inr g) \<longrightarrow>
           dom (allocations s1) = insert (new_allocation cenv) (dom (allocations s))
           \<and> dom (buffers s1) = insert (new_buffer cenv) (dom (buffers s))"
    and "(\<exists>f. r = Inl (Fails f)) \<longrightarrow> s1 = s"
    and "r = Inr g \<Longrightarrow> allocation g = new_allocation cenv \<and> buffer g = new_buffer cenv"
  using assms by (auto simp: create_result_def Let_def split: if_splits)

lemma vmaCopyMemoryToAllocation_live:
  assumes "vmaCopyMemoryToAllocation src a offset n s = Some s1"
  shows "dom (allocations s1) = dom (allocations s) \<and> buffers s1 = buffers s"
  using assms
  by (auto simp: vmaCopyMemoryToAllocation_def split: option.splits if_splits)

lemma copy_region_live:
  assumes "copy_region src dst r s = Some s1"
  shows "dom (allocations s1) = dom (allocations s) \<and> buffers s1 = buffers s"
  using assms
  by (auto simp: copy_region_def split: option.splits if_splits)

lemma copy_regions_live:
  "copy_regions src dst rs s = Some s1 \<Longrightarrow>
   dom (allocations s1) = dom (allocations s) \<and> buffers s1 = buffers s"
proof (induction rs arbitrary: s)
  case Nil
  then show ?case by simp
next
  case (Cons r rs)
  then show ?case
    by (auto split: option.splits dest!: copy_region_live)
qed

lemma run_commands_live:
  "run_commands cs s = Some s1 \<Longrightarrow>
   dom (allocations s1) = dom (allocations s) \<and> buffers s1 = buffers s"
proof (induction cs s rule: run_commands.induct)
  case (1 s)
  then show ?case by simp
next
  case (2 src dst rs cs s)
  then show ?case
    by (auto split: option.splits dest!: copy_regions_live)
qed simp_all

lemma device_runs_live:
  assumes "device_runs submitted s = (r, s1)"
  shows "dom (allocations s1) = dom (allocations s) \<and> buffers s1 = buffers s"
  using assms
  by (auto simp: device_runs_def split: prod.splits sum.splits option.splits
      dest!: run_commands_live)

lemma vmaDestroyBuffer_live:
  "dom (allocations (vmaDestroyBuffer b a s)) = dom (allocations s) - {a}"
  "dom (buffers (vmaDestroyBuffer b a s)) = dom (buffers s) - {b}"
  by (auto simp: vmaDestroyBuffer_def)

lemma write_result_releases_staging_buffer:
  assumes fresh: "new_allocation (staging_create env) \<notin> dom (allocations s)"
    "new_buffer (staging_create env) \<notin> dom (buffers s)"
    and nonnull: "new_allocation (staging_create env) \<noteq> nullptr"
    "new_buffer (staging_create env) \<noteq> nullptr"
  shows "dom (allocations (snd (write_result env engine b data n offset s))) = dom (allocations s)
    \<and> dom (buffers (snd (write_result env engine b data n offset s))) = dom (buffers s)"
proof (cases "allocator engine = nullptr \<or> allocation b = nullptr \<or> buffer b = nullptr
        \<or> data = None \<or> n = 0 \<or> (memory_type b = Staging \<and> offset \<noteq> 0)")
  case True
  then show ?thesis by (simp add: write_result_def)
next
  case pre: False
  show ?thesis
  proof (cases "memory_type b = RandomAccess \<or> memory_type b = Staging")
    case True
    with pre show ?thesis
      by (auto simp: write_result_def split: option.splits
          dest!: vmaCopyMemoryToAllocation_live)
  next
    case dl: False
    obtain r s1 where cr: "create_result (staging_create env) engine (BufferConfig n eTransferSrc Staging) s = (r, s1)"
      by (cases "create_result (staging_create env) engine (BufferConfig n eTransferSrc Staging) s")
    show ?thesis
    proof (cases r)
      case (Inl f)
      have "s1 = s"
        using cr Inl pre nonnull
        by (auto simp: create_result_def Let_def eTransferSrc_def split: if_splits)
      with pre dl cr Inl show ?thesis by (simp add: write_result_def)
    next
      case (Inr g)
      have live1: "dom (allocations s1) = insert (new_allocation (staging_create env)) (dom (allocations s))"
        "dom (buffers s1) = insert (new_buffer (staging_create env)) (dom (buffers s))"
        using create_result_live(1) [OF cr] Inr by simp_all
      have g: "allocation g = new_allocation (staging_create env)" "buffer g = new_buffer (staging_create env)"
        using create_result_live(3) [OF cr Inr] by simp_all
      define body where "body =
        (if copy_result env \<noteq> eSuccess then (Inl ErrOfValue, s1)
         else case vmaCopyMemoryToAllocation (the data) (allocation g) 0 n s1 of
                None \<Rightarrow> (Inl InvalidUsage, s1)
              | Some s2 \<Rightarrow>
                  (case device_runs (submit_single_time_commands (submit_env env) engine
                          (write_commands g b n offset)) s2 of
                     (Inl (Fails e), s3) \<Rightarrow> (Inl (Fails CouldNotWriteGpuBuffer), s3)
                   | (Inl f, s3) \<Rightarrow> (Inl f, s3)
                   | (Inr u, s3) \<Rightarrow> (Inr (), s3)))"
      have body_live: "dom (allocations (snd body)) = dom (allocations s1)
          \<and> dom (buffers (snd body)) = dom (buffers s1)"
      proof (cases "copy_result env \<noteq> eSuccess")
        case True
        then show ?thesis by (simp add: body_def)
      next
        case ok: False
        show ?thesis
        proof (cases "vmaCopyMemoryToAllocation (the data) (allocation g) 0 n s1")
          case None
          with ok show ?thesis by (simp add: body_def)
        next
          case (Some s2)
          obtain r3 s3 where sub: "device_runs (submit_single_time_commands (submit_env env) engine
              (write_commands g b n offset)) s2 = (r3, s3)"
            by (cases "device_runs (submit_single_time_commands (submit_env env) engine
              (write_commands g b n offset)) s2")
          have "snd body = s3"
            using ok Some sub by (simp add: body_def split: sum.splits fault.splits)
          then show ?thesis
            using device_runs_live [OF sub] vmaCopyMemoryToAllocation_live [OF Some]
            by simp
        qed
      qed
      from pre obtain d where d: "data = Some d"
        by auto
      from pre have p: "allocator engine \<noteq> nullptr" "allocation b \<noteq> nullptr"
        "buffer b \<noteq> nullptr" "n \<noteq> 0" "memory_type b = Staging \<longrightarrow> offset = 0"
        by auto
      have "snd (write_result env engine b data n offset s)
          = vmaDestroyBuffer (buffer g) (allocation g) (snd body)"
        using p d dl cr Inr by (simp add: write_result_def body_def split: prod.splits)
      then show ?thesis
        using body_live live1 g fresh by (simp add: vmaDestroyBuffer_live)
    qed
  qed
qed

text \<open>
  C5, the code at the failing input. On a DeviceLocal buffer, with the staging
  buffer created and \<^verbatim>\<open>vmaCopyMemoryToAllocation\<close> failing, \<^verbatim>\<open>write_result\<close> returns
  \<^verbatim>\<open>staging_buffer.err()\<close> of a result that holds the staging buffer, not an error
  tag of the failed copy.
\<close>

theorem write_result_mapped_copy_failure:
  "fst (write_result (write_ok\<lparr>copy_result := eErrorMemoryMapFailed\<rparr>) engine0 device_buffer
          (Some [1, 2, 3, 4]) 4 0 mem0) = Inl ErrOfValue
   \<and> fst (write_result (write_ok\<lparr>copy_result := eErrorMemoryMapFailed\<rparr>) engine0 staging_buffer64
          (Some [1, 2, 3, 4]) 4 0 mem0) = Inl (Fails CouldNotWriteGpuBuffer)"
  by (simp add: write_result_def write_ok_def create_ok_def engine0_def device_buffer_def
      staging_buffer64_def nullptr_def create_result_def eTransferSrc_def Let_def)
text \<open>
  A write to a DeviceLocal buffer at offset 0 does reach the buffer: the first
  \<open>n\<close> bytes of its allocation become the data, and the staging buffer is gone.
\<close>

lemma write_result_device_local_offset_zero:
  assumes dl: "memory_type b = DeviceLocal"
    and handles: "allocator engine \<noteq> nullptr" "allocation b \<noteq> nullptr" "buffer b \<noteq> nullptr"
    and bound: "buffers s (buffer b) = Some (allocation b)" "allocations s (allocation b) = Some bytes"
    and B: "length B = n" "0 < n" "n \<le> length bytes"
    and staging: "buffer_result (staging_create env) = eSuccess"
      "new_buffer (staging_create env) \<noteq> nullptr" "new_allocation (staging_create env) \<noteq> nullptr"
      "new_buffer (staging_create env) \<notin> dom (buffers s)"
      "new_allocation (staging_create env) \<notin> dom (allocations s)"
    and ok: "copy_result env = eSuccess" "single_time_outcome (submit_env env) engine = Inr ()"
  shows "fst (write_result env engine b (Some B) n 0 s) = Inr ()"
    and "allocations (snd (write_result env engine b (Some B) n 0 s)) (allocation b)
           = Some (B @ drop n bytes)"
    and "buffers (snd (write_result env engine b (Some B) n 0 s)) (buffer b) = Some (allocation b)"
proof -
  let ?sb = "new_buffer (staging_create env)" and ?sa = "new_allocation (staging_create env)"
  have ne: "?sb \<noteq> buffer b" "?sa \<noteq> allocation b"
    using staging bound by auto
  define g where "g = \<lparr>allocation = ?sa, buffer = ?sb, memory_type = Staging\<rparr>"
  define s1 where "s1 = s\<lparr>allocations := (allocations s)(?sa \<mapsto> map (new_contents (staging_create env)) [0..<n]),
                      buffers := (buffers s)(?sb \<mapsto> ?sa)\<rparr>"
  have cr: "create_result (staging_create env) engine (BufferConfig n eTransferSrc Staging) s = (Inr g, s1)"
    using handles B staging by (simp add: create_result_def eTransferSrc_def Let_def g_def s1_def)
  define s2 where "s2 = s1\<lparr>allocations := (allocations s1)(?sa \<mapsto> B)\<rparr>"
  have cp: "vmaCopyMemoryToAllocation B (allocation g) 0 n s1 = Some s2"
    using B by (simp add: vmaCopyMemoryToAllocation_def g_def s1_def s2_def)
  define s3 where "s3 = s2\<lparr>allocations := (allocations s2)(allocation b \<mapsto> B @ drop n bytes)\<rparr>"
  have run: "run_commands (write_commands g b n 0) s2 = Some s3"
    using B bound ne
    by (simp add: write_commands_def copy_region_def g_def s1_def s2_def s3_def)
  have sub: "device_runs (submit_single_time_commands (submit_env env) engine (write_commands g b n 0)) s2
      = (Inr (), s3)"
    using ok run by (simp add: device_runs_simps)
  have w: "write_result env engine b (Some B) n 0 s = (Inr (), vmaDestroyBuffer ?sb ?sa s3)"
    using dl handles B ok cr cp sub by (simp add: write_result_def g_def)
  show "fst (write_result env engine b (Some B) n 0 s) = Inr ()"
    using w by simp
  show "allocations (snd (write_result env engine b (Some B) n 0 s)) (allocation b)
           = Some (B @ drop n bytes)"
    using w ne by (simp add: vmaDestroyBuffer_def s3_def)
  show "buffers (snd (write_result env engine b (Some B) n 0 s)) (buffer b) = Some (allocation b)"
    using w ne bound by (simp add: vmaDestroyBuffer_def s3_def s2_def s1_def)
qed

text \<open>Reading back returns the bytes of the region, when the region is inside the buffer.\<close>

lemma read_back_region:
  assumes handles: "allocator engine \<noteq> nullptr"
    and bound: "buffers s (buffer b) = Some (allocation b)" "allocations s (allocation b) = Some bytes"
    and n: "0 < n" "offset + n \<le> length bytes"
    and host: "buffer_result cenv = eSuccess" "new_buffer cenv \<noteq> nullptr"
      "new_allocation cenv \<noteq> nullptr" "new_buffer cenv \<notin> dom (buffers s)"
      "new_allocation cenv \<notin> dom (allocations s)"
    and ok: "single_time_outcome senv engine = Inr ()"
  shows "read_back cenv senv engine b n offset s = Some (take n (drop offset bytes))"
proof -
  have ne: "new_buffer cenv \<noteq> buffer b" "new_allocation cenv \<noteq> allocation b"
    using host bound by auto
  show ?thesis
    using handles bound n host ok ne
    by (simp add: read_back_def create_result_def Let_def device_runs_simps
        copy_region_def)
qed

text \<open>
  The round trip at offset 0: writing \<open>B\<close> to a DeviceLocal buffer that is large
  enough and reading the first \<open>length B\<close> bytes back gives \<open>B\<close>.
\<close>

lemma write_read_round_trip_offset_zero:
  assumes dl: "memory_type b = DeviceLocal"
    and handles: "allocator engine \<noteq> nullptr" "allocation b \<noteq> nullptr" "buffer b \<noteq> nullptr"
    and bound: "buffers s (buffer b) = Some (allocation b)" "allocations s (allocation b) = Some bytes"
    and B: "length B = n" "0 < n" "n \<le> length bytes"
    and staging: "buffer_result (staging_create env) = eSuccess"
      "new_buffer (staging_create env) \<noteq> nullptr" "new_allocation (staging_create env) \<noteq> nullptr"
      "new_buffer (staging_create env) \<notin> dom (buffers s)"
      "new_allocation (staging_create env) \<notin> dom (allocations s)"
    and ok: "copy_result env = eSuccess" "single_time_outcome (submit_env env) engine = Inr ()"
    and host: "buffer_result cenv = eSuccess" "new_buffer cenv \<noteq> nullptr"
      "new_allocation cenv \<noteq> nullptr" "new_buffer cenv \<notin> dom (buffers s)"
      "new_allocation cenv \<notin> dom (allocations s)"
    and rok: "single_time_outcome senv engine = Inr ()"
  shows "fst (write_result env engine b (Some B) n 0 s) = Inr ()
    \<and> read_back cenv senv engine b n 0 (snd (write_result env engine b (Some B) n 0 s)) = Some B"
proof -
  let ?s' = "snd (write_result env engine b (Some B) n 0 s)"
  note w = write_result_device_local_offset_zero [OF dl handles bound B staging ok]
  have live: "dom (allocations ?s') = dom (allocations s)" "dom (buffers ?s') = dom (buffers s)"
    using write_result_releases_staging_buffer [OF staging(5) staging(4) staging(3) staging(2),
        of engine b "Some B" n 0]
    by simp_all
  have "read_back cenv senv engine b n 0 ?s' = Some (take n (drop 0 (B @ drop n bytes)))"
    using B host live
    by (intro read_back_region [OF handles(1) w(3) w(2) _ _ host(1,2,3) _ _ rok]) simp_all
  then show ?thesis
    using w(1) B by simp
qed

text \<open>
  C6, the code at the failing input. A write of four bytes at offset 4 of an
  eight-byte DeviceLocal buffer records a copy whose source offset is 4 and whose
  destination offset is 0; the source region lies outside the four-byte staging
  buffer, the write does not succeed, and reading bytes 4 to 7 of the destination
  back does not give the data.
\<close>

theorem write_result_nonzero_offset_round_trip_fails:
  "write_commands \<lparr>allocation = 33, buffer = 32, memory_type = Staging\<rparr> device_buffer 4 4
     = [CopyBuffer 32 40 [BufferCopy 4 0 4]]
   \<and> fst (write_result write_ok engine0 device_buffer (Some [1, 2, 3, 4]) 4 4 mem0) = Inl InvalidUsage
   \<and> read_back (create_ok 50 51) stc_ok engine0 device_buffer 4 4
        (snd (write_result write_ok engine0 device_buffer (Some [1, 2, 3, 4]) 4 4 mem0))
       = Some [0, 0, 0, 0]"
proof -
  have a: "write_commands \<lparr>allocation = 33, buffer = 32, memory_type = Staging\<rparr> device_buffer 4 4
     = [CopyBuffer 32 40 [BufferCopy 4 0 4]]"
    by (simp add: write_commands_def device_buffer_def)
  have w: "write_result write_ok engine0 device_buffer (Some [1, 2, 3, 4]) 4 4 mem0
      = (Inl InvalidUsage, mem0)"
    using engine0_handles
    by (simp add: write_result_def write_ok_def create_ok_def device_buffer_def
        nullptr_def create_result_def eTransferSrc_def Let_def vmaCopyMemoryToAllocation_def
        device_runs_simps single_time_outcome_ok write_commands_def copy_region_def mem0_def
        vmaDestroyBuffer_def fun_upd_idem)
  have r: "read_back (create_ok 50 51) stc_ok engine0 device_buffer 4 4 mem0 = Some (replicate 4 0)"
    using engine0_handles
    by (simp add: read_back_def create_ok_def device_buffer_def
        nullptr_def create_result_def Let_def
        device_runs_simps single_time_outcome_ok copy_region_def mem0_def)
  have z: "replicate 4 (0::u8) = [0, 0, 0, 0]"
    by (simp add: eval_nat_numeral)
  show ?thesis using a w r z by simp
qed

section \<open>Theorems: image creation\<close>

lemma build_one_barrier:
  "build_and_run (set_image_dst stage access layout (add_image_barrier img subresource [])) =
     [PipelineBarrier2 [\<lparr>barrier_image = img, subresourceRange = subresource,
        srcStageMask = stage_eNone, srcAccessMask = access_eNone, oldLayout = eUndefined,
        dstStageMask = stage, dstAccessMask = access, newLayout = layout\<rparr>]]"
  "build_and_run (set_image_dst stage access layout
      (set_image_src stage' access' layout' (add_image_barrier img subresource []))) =
     [PipelineBarrier2 [\<lparr>barrier_image = img, subresourceRange = subresource,
        srcStageMask = stage', srcAccessMask = access', oldLayout = layout',
        dstStageMask = stage, dstAccessMask = access, newLayout = layout\<rparr>]]"
  by (simp_all add: build_and_run_def set_image_dst_def set_image_src_def add_image_barrier_def)

lemma submit_single_time_commands_recorded:
  "submit_single_time_commands env engine commands = (Inr u, cmds) \<Longrightarrow> cmds = commands"
  by (auto simp: submit_single_time_commands_def split: sum.splits)

lemma GpuImage_create_result_calls:
  assumes "GpuImage_create_result env engine config = (Inr img, calls)"
    and "config_layout config \<noteq> eUndefined"
  shows "\<exists>image_info.
    calls = [VmaCreateImage image_info,
      CreateImageView \<lparr>view_image = image img, viewType =
          (if depth (config_extent config) = 1
           then (if height (config_extent config) = 1 then ImageViewType_e3D - 1 - 1
                 else ImageViewType_e3D - 1)
           else ImageViewType_e3D),
        view_format = config_format config,
        view_subresourceRange =
          ImageSubresourceRange (config_aspect_flags config) 0 (config_mip_levels config) 0 1\<rparr>,
      Submit [PipelineBarrier2 [\<lparr>barrier_image = image img,
        subresourceRange = ImageSubresourceRange eColor 0 1 0 1,
        srcStageMask = stage_eNone, srcAccessMask = access_eNone, oldLayout = eUndefined,
        dstStageMask = stage_eNone, dstAccessMask = access_eNone,
        newLayout = config_layout config\<rparr>]]]
    \<and> initialLayout image_info = eUndefined \<and> mipLevels image_info = config_mip_levels config"
proof -
  let ?sc = "\<lparr>staging_extent = config_extent config, staging_format = config_format config,
                staging_usage = config_image_usage config,
                staging_sample_count = config_sample_count config,
                staging_mip_levels = config_mip_levels config\<rparr>"
  obtain r0 calls0 where st: "StagingGpuImage_create (staging_env env) engine ?sc = (r0, calls0)"
    by (cases "StagingGpuImage_create (staging_env env) engine ?sc")
  from assms st obtain staging where r0: "r0 = Inr staging"
    by (cases r0) (auto simp: GpuImage_create_result_def split: if_splits fault.splits)
  from st r0 obtain image_info where c0: "calls0 = [VmaCreateImage image_info]"
    and ii: "initialLayout image_info = eUndefined" "mipLevels image_info = config_mip_levels config"
    by (auto simp: StagingGpuImage_create_def Let_def split: if_splits)
  let ?cmds = "build_and_run (set_image_dst stage_eNone access_eNone (config_layout config)
                 (add_image_barrier (staging_image staging) (ImageSubresourceRange eColor 0 1 0 1) []))"
  obtain r1 cmds where sub: "submit_single_time_commands (layout_submit env) engine ?cmds = (r1, cmds)"
    by (cases "submit_single_time_commands (layout_submit env) engine ?cmds")
  from assms st r0 sub have r1: "r1 = Inr ()"
    by (cases r1) (auto simp: GpuImage_create_result_def Let_def split: if_splits fault.splits)
  have cmds: "cmds = ?cmds"
    using submit_single_time_commands_recorded sub r1 by blast
  from assms st r0 sub r1 have img: "image img = staging_image staging"
    and calls: "calls = calls0 @ [CreateImageView \<lparr>view_image = staging_image staging, viewType =
          (if depth (config_extent config) = 1
           then (if height (config_extent config) = 1 then ImageViewType_e3D - 1 - 1
                 else ImageViewType_e3D - 1)
           else ImageViewType_e3D),
        view_format = config_format config,
        view_subresourceRange =
          ImageSubresourceRange (config_aspect_flags config) 0 (config_mip_levels config) 0 1\<rparr>]
        @ [Submit cmds]"
    by (auto simp: GpuImage_create_result_def Let_def split: if_splits)
  show ?thesis
    using calls c0 ii img cmds by (simp add: build_one_barrier)
qed

text \<open>
  C10. When \<^verbatim>\<open>GpuImage::create_result\<close> succeeds for an initial layout other than
  "undefined" and more than one mip level, its only barrier covers mip level 0
  and array layer 0 of the new image (base level 0, level count 1), the view it
  creates spans all \<open>mip_levels\<close> levels, the image is created in the undefined
  layout, and after the submitted commands level 0 is in the requested layout
  while every level from 1 to \<open>mip_levels - 1\<close> is still undefined.
\<close>

theorem create_result_transitions_level_zero_only:
  assumes "GpuImage_create_result env engine config = (Inr img, calls)"
    and "config_layout config \<noteq> eUndefined"
    and "1 < config_mip_levels config"
  shows "map subresourceRange (barriers (submitted_commands calls))
           = [ImageSubresourceRange eColor 0 1 0 1]
    \<and> map barrier_image (barriers (submitted_commands calls)) = [image img]
    \<and> map view_subresourceRange (created_views calls)
           = [ImageSubresourceRange (config_aspect_flags config) 0 (config_mip_levels config) 0 1]
    \<and> map view_image (created_views calls) = [image img]
    \<and> map initialLayout (created_images calls) = [eUndefined]
    \<and> map mipLevels (created_images calls) = [config_mip_levels config]
    \<and> layouts_after (submitted_commands calls) (\<lambda>i level layer. eUndefined) (image img) 0 0
           = config_layout config
    \<and> (\<forall>level. 1 \<le> level \<and> level < unat (config_mip_levels config) \<longrightarrow>
          layouts_after (submitted_commands calls) (\<lambda>i level layer. eUndefined) (image img) level 0
            = eUndefined)"
proof -
  from GpuImage_create_result_calls [OF assms(1,2)] obtain image_info where
    calls: "calls = [VmaCreateImage image_info,
      CreateImageView \<lparr>view_image = image img, viewType =
          (if depth (config_extent config) = 1
           then (if height (config_extent config) = 1 then ImageViewType_e3D - 1 - 1
                 else ImageViewType_e3D - 1)
           else ImageViewType_e3D),
        view_format = config_format config,
        view_subresourceRange =
          ImageSubresourceRange (config_aspect_flags config) 0 (config_mip_levels config) 0 1\<rparr>,
      Submit [PipelineBarrier2 [\<lparr>barrier_image = image img,
        subresourceRange = ImageSubresourceRange eColor 0 1 0 1,
        srcStageMask = stage_eNone, srcAccessMask = access_eNone, oldLayout = eUndefined,
        dstStageMask = stage_eNone, dstAccessMask = access_eNone,
        newLayout = config_layout config\<rparr>]]]"
    and ii: "initialLayout image_info = eUndefined" "mipLevels image_info = config_mip_levels config"
    by blast
  show ?thesis
    unfolding calls using ii by (simp add: apply_barrier_def in_range_def)
qed

lemma image_create_ok_result:
  "GpuImage_create_result image_create_ok engine0 image_config0
     = (Inr \<lparr>image_allocation = 61, image = 60, view = 62\<rparr>,
        snd (GpuImage_create_result image_create_ok engine0 image_config0))"
  using engine0_handles
  by (simp add: GpuImage_create_result_def StagingGpuImage_create_def image_create_ok_def
      image_config0_def submit_single_time_commands_outcome(2) [OF single_time_outcome_ok]
      eR8G8B8A8Srgb_def eColor_def nullptr_def Let_def)

text \<open>The theorem at a 256 by 256 colour image with nine mip levels: level 4 stays undefined.\<close>

theorem create_result_transitions_level_zero_only_witness:
  "map subresourceRange (barriers (submitted_commands
       (snd (GpuImage_create_result image_create_ok engine0 image_config0))))
     = [ImageSubresourceRange eColor 0 1 0 1]
   \<and> map view_subresourceRange (created_views
       (snd (GpuImage_create_result image_create_ok engine0 image_config0)))
     = [ImageSubresourceRange eColor 0 9 0 1]
   \<and> layouts_after (submitted_commands
         (snd (GpuImage_create_result image_create_ok engine0 image_config0)))
       (\<lambda>i level layer. eUndefined) 60 0 0 = eShaderReadOnlyOptimal
   \<and> layouts_after (submitted_commands
         (snd (GpuImage_create_result image_create_ok engine0 image_config0)))
       (\<lambda>i level layer. eUndefined) 60 4 0 = eUndefined"
proof -
  have l: "config_layout image_config0 \<noteq> eUndefined" "config_layout image_config0 = eShaderReadOnlyOptimal"
    by (simp_all add: image_config0_def)
  have m: "1 < config_mip_levels image_config0" "config_mip_levels image_config0 = 9"
    "config_aspect_flags image_config0 = eColor"
    by (simp_all add: image_config0_def)
  have u: "(1::nat) \<le> 4 \<and> 4 < unat (config_mip_levels image_config0)"
    by (simp add: image_config0_def)
  show ?thesis
    using create_result_transitions_level_zero_only [OF image_create_ok_result l(1) m(1)] l(2) m(2,3) u
    by simp
qed

section \<open>Theorems: mip chain generation\<close>

lemma halve_axis:
  fixes v :: i32
  assumes "0 <s v"
  shows "sint (if 1 <s v then i32_div v 2 else v) = halved_floor_1 (sint v)"
    and "0 <s (if 1 <s v then i32_div v 2 else v)"
proof -
  let ?k = "sint v"
  have pos: "0 < ?k"
    using assms by (simp add: word_sless_alt)
  have "?k < 2 ^ (LENGTH(32) - 1)"
    by (rule sint_lt)
  then have up: "?k < 2147483648"
    by simp
  show "sint (if 1 <s v then i32_div v 2 else v) = halved_floor_1 (sint v)"
  proof (cases "1 <s v")
    case True
    then have gt: "1 < ?k"
      by (simp add: word_sless_alt)
    have sd: "?k sdiv 2 = ?k div 2"
      using pos by (simp add: signed_divide_int_def)
    have "sint (word_of_int (?k div 2) :: i32) = ?k div 2"
      using pos up by (simp add: sint_sbintrunc' signed_take_bit_int_eq_self)
    then show ?thesis
      using True gt sd by (simp add: i32_div_def halved_floor_1_def)
  next
    case False
    then have "?k = 1"
      using pos by (simp add: word_sless_alt)
    then show ?thesis
      using False by (simp add: halved_floor_1_def)
  qed
  then have "0 < sint (if 1 <s v then i32_div v 2 else v)"
    using pos by (simp add: halved_floor_1_def)
  then show "0 <s (if 1 <s v then i32_div v 2 else v)"
    by (simp add: word_sless_alt)
qed

lemma next_mip_offset_axes:
  "offset_x (next_mip_offset m) = (if 1 <s offset_x m then i32_div (offset_x m) 2 else offset_x m)"
  "offset_y (next_mip_offset m) = (if 1 <s offset_y m then i32_div (offset_y m) 2 else offset_y m)"
  "offset_z (next_mip_offset m) = (if 1 <s offset_z m then i32_div (offset_z m) 2 else offset_z m)"
  by (simp_all add: next_mip_offset_def Let_def)

lemma next_mip_offset_dims:
  assumes "positive_dims (offset_dims m)"
  shows "offset_dims (next_mip_offset m) = halved_dims (offset_dims m)"
    and "positive_dims (offset_dims (next_mip_offset m))"
proof -
  from assms have p: "0 <s offset_x m" "0 <s offset_y m" "0 <s offset_z m"
    by (simp_all add: offset_dims_def word_sless_alt)
  show "offset_dims (next_mip_offset m) = halved_dims (offset_dims m)"
    using halve_axis(1) [OF p(1)] halve_axis(1) [OF p(2)] halve_axis(1) [OF p(3)]
    by (simp add: offset_dims_def next_mip_offset_axes)
  show "positive_dims (offset_dims (next_mip_offset m))"
    using halve_axis(2) [OF p(1)] halve_axis(2) [OF p(2)] halve_axis(2) [OF p(3)]
    by (simp add: offset_dims_def next_mip_offset_axes word_sless_alt)
qed

text \<open>Halving with a floor of 1, repeated, is a division by a power of two with that floor.\<close>

lemma halved_floor_1_power:
  assumes "0 < d"
  shows "(halved_floor_1 ^^ i) d = max 1 (d div 2 ^ i)"
proof (induction i)
  case 0
  then show ?case using assms by simp
next
  case (Suc i)
  have p: "(0::int) < 2 ^ i"
    by simp
  have "halved_floor_1 (max 1 (d div 2 ^ i)) = max 1 (d div 2 ^ Suc i)"
  proof (cases "1 \<le> d div 2 ^ i")
    case True
    then have "halved_floor_1 (max 1 (d div 2 ^ i)) = max 1 ((d div 2 ^ i) div 2)"
      by (simp add: halved_floor_1_def max_def)
    also have "(d div 2 ^ i) div 2 = d div (2 ^ i * 2)"
      by (rule zdiv_zmult2_eq [symmetric]) simp
    also have "(2::int) ^ i * 2 = 2 ^ Suc i"
      by simp
    finally show ?thesis .
  next
    case False
    have "0 \<le> d div 2 ^ i"
      using assms p by (simp add: pos_imp_zdiv_nonneg_iff)
    with False have z: "d div 2 ^ i = 0"
      by linarith
    have "d = 2 ^ i * (d div 2 ^ i) + d mod 2 ^ i"
      by simp
    with z have "d = d mod 2 ^ i"
      by simp
    moreover have "d mod 2 ^ i < 2 ^ i"
      using p by (rule pos_mod_bound)
    ultimately have "d < 2 ^ i"
      by simp
    with p have "d < 2 * 2 ^ i"
      by linarith
    then have "d < 2 ^ Suc i"
      by simp
    then have "d div 2 ^ Suc i = 0"
      using assms by (intro div_pos_pos_trivial) simp_all
    with z show ?thesis
      by (simp add: halved_floor_1_def)
  qed
  with Suc show ?case by simp
qed

lemma funpow_next_mip_offset_dims:
  assumes "positive_dims (offset_dims m)"
  shows "positive_dims (offset_dims ((next_mip_offset ^^ i) m))
    \<and> offset_dims ((next_mip_offset ^^ i) m) = (halved_dims ^^ i) (offset_dims m)"
proof (induction i)
  case 0
  then show ?case using assms by simp
next
  case (Suc i)
  then have pos: "positive_dims (offset_dims ((next_mip_offset ^^ i) m))"
    and eq: "offset_dims ((next_mip_offset ^^ i) m) = (halved_dims ^^ i) (offset_dims m)"
    by blast+
  have "offset_dims (next_mip_offset ((next_mip_offset ^^ i) m))
      = halved_dims (offset_dims ((next_mip_offset ^^ i) m))"
    by (rule next_mip_offset_dims(1) [OF pos])
  moreover have "positive_dims (offset_dims (next_mip_offset ((next_mip_offset ^^ i) m)))"
    by (rule next_mip_offset_dims(2) [OF pos])
  ultimately show ?case
    using eq by simp
qed

lemma funpow_halved_dims:
  "(halved_dims ^^ i) (w, h, d) = ((halved_floor_1 ^^ i) w, (halved_floor_1 ^^ i) h, (halved_floor_1 ^^ i) d)"
  by (induction i) simp_all

lemma blit_regions_append: "blit_regions (xs @ ys) = blit_regions xs @ blit_regions ys"
  by (induction xs rule: blit_regions.induct) simp_all

lemma submitted_commands_single: "submitted_commands [Submit cs] = cs"
  by simp

lemma blit_regions_mip_loop:
  "blit_regions (mip_loop img mip_levels level m) =
    (if level < mip_levels - 1 then
       \<lparr>blit_srcSubresource = ImageSubresourceLayers eColor level 0 1,
         srcOffsets0 = Offset3D 0 0 0, srcOffsets1 = m,
         blit_dstSubresource = ImageSubresourceLayers eColor (level + 1) 0 1,
         dstOffsets0 = Offset3D 0 0 0, dstOffsets1 = next_mip_offset m\<rparr>
       # blit_regions (mip_loop img mip_levels (level + 1) (next_mip_offset m))
     else [])"
  by (subst mip_loop.simps) (simp add: blit_regions_append build_one_barrier)

lemma u32_succ:
  fixes level bound :: u32
  assumes "level < bound"
  shows "unat (level + 1) = Suc (unat level)"
proof -
  have less: "unat level < unat bound"
    using assms by (simp add: word_less_nat_alt)
  have "unat bound < 2 ^ LENGTH(32)"
    by (rule unsigned_less)
  with less have "unat level + unat (1 :: u32) < 2 ^ LENGTH(32)"
    by simp
  then have "unat (level + 1) = unat level + unat (1 :: u32)"
    by (simp only: unat_add_lem)
  then show ?thesis by simp
qed

lemma mip_loop_regions:
  "unat level + n = unat (mip_levels - 1) \<Longrightarrow>
   length (blit_regions (mip_loop img mip_levels level m)) = n
   \<and> (\<forall>i < n. blit_regions (mip_loop img mip_levels level m) ! i =
        \<lparr>blit_srcSubresource = ImageSubresourceLayers eColor (level + of_nat i) 0 1,
          srcOffsets0 = Offset3D 0 0 0, srcOffsets1 = (next_mip_offset ^^ i) m,
          blit_dstSubresource = ImageSubresourceLayers eColor (level + of_nat i + 1) 0 1,
          dstOffsets0 = Offset3D 0 0 0, dstOffsets1 = (next_mip_offset ^^ Suc i) m\<rparr>)"
proof (induction n arbitrary: level m)
  case 0
  then have "\<not> level < mip_levels - 1"
    by (simp add: word_less_nat_alt)
  then show ?case
    by (simp add: blit_regions_mip_loop)
next
  case (Suc n)
  then have lt: "level < mip_levels - 1"
    by (simp add: word_less_nat_alt)
  have "unat (level + 1) + n = unat (mip_levels - 1)"
    using Suc.prems u32_succ [OF lt] by simp
  from Suc.IH [OF this, of "next_mip_offset m"]
  have len: "length (blit_regions (mip_loop img mip_levels (level + 1) (next_mip_offset m))) = n"
    and nth: "\<And>i. i < n \<Longrightarrow> blit_regions (mip_loop img mip_levels (level + 1) (next_mip_offset m)) ! i =
        \<lparr>blit_srcSubresource = ImageSubresourceLayers eColor (level + 1 + of_nat i) 0 1,
          srcOffsets0 = Offset3D 0 0 0, srcOffsets1 = (next_mip_offset ^^ i) (next_mip_offset m),
          blit_dstSubresource = ImageSubresourceLayers eColor (level + 1 + of_nat i + 1) 0 1,
          dstOffsets0 = Offset3D 0 0 0, dstOffsets1 = (next_mip_offset ^^ Suc i) (next_mip_offset m)\<rparr>"
    by simp_all
  have unfold: "blit_regions (mip_loop img mip_levels level m) =
       \<lparr>blit_srcSubresource = ImageSubresourceLayers eColor level 0 1,
         srcOffsets0 = Offset3D 0 0 0, srcOffsets1 = m,
         blit_dstSubresource = ImageSubresourceLayers eColor (level + 1) 0 1,
         dstOffsets0 = Offset3D 0 0 0, dstOffsets1 = next_mip_offset m\<rparr>
       # blit_regions (mip_loop img mip_levels (level + 1) (next_mip_offset m))"
    using lt by (subst blit_regions_mip_loop) simp
  show ?case
  proof (intro conjI allI impI)
    show "length (blit_regions (mip_loop img mip_levels level m)) = Suc n"
      using unfold len by simp
  next
    fix i
    assume "i < Suc n"
    show "blit_regions (mip_loop img mip_levels level m) ! i =
        \<lparr>blit_srcSubresource = ImageSubresourceLayers eColor (level + of_nat i) 0 1,
          srcOffsets0 = Offset3D 0 0 0, srcOffsets1 = (next_mip_offset ^^ i) m,
          blit_dstSubresource = ImageSubresourceLayers eColor (level + of_nat i + 1) 0 1,
          dstOffsets0 = Offset3D 0 0 0, dstOffsets1 = (next_mip_offset ^^ Suc i) m\<rparr>"
    proof (cases i)
      case 0
      then show ?thesis using unfold by simp
    next
      case (Suc j)
      then have "j < n" using \<open>i < Suc n\<close> by simp
      from nth [OF this] show ?thesis
        using unfold Suc by (simp add: funpow_swap1 ac_simps)
    qed
  qed
qed

lemma generate_mipmaps_result_blits:
  assumes "generate_mipmaps_result to_i32 env engine g mip_levels ext format final_layout = (Inr (), calls)"
  shows "mip_blits calls =
    blit_regions (mip_loop (image g) mip_levels 0
      (Offset3D (to_i32 (width ext)) (to_i32 (height ext)) (to_i32 (depth ext))))"
proof -
  let ?cmds = "generate_mipmaps_commands to_i32 (image g) mip_levels ext final_layout"
  obtain r cmds where sub: "submit_single_time_commands (mipmap_submit env) engine ?cmds = (r, cmds)"
    by (cases "submit_single_time_commands (mipmap_submit env) engine ?cmds")
  from assms sub have r: "r = Inr ()" and calls: "calls = [Submit cmds]"
    by (auto simp: generate_mipmaps_result_def split: if_splits sum.splits fault.splits)
  have "cmds = ?cmds"
    using submit_single_time_commands_recorded sub r by blast
  then show ?thesis
    using calls
    by (simp add: mip_blits_def generate_mipmaps_commands_def blit_regions_append build_one_barrier)
qed

text \<open>
  C7. When \<^verbatim>\<open>generate_mipmaps_result\<close> succeeds on an extent whose dimensions are
  positive as \<^verbatim>\<open>i32\<close> values, it records \<open>mip_levels - 1\<close> blits; blit \<open>i\<close> reads
  level \<open>i\<close> and writes level \<open>i + 1\<close>; the source dimensions of blit \<open>i\<close>
  are the extent's dimensions divided by \<open>2 ^ i\<close> with a floor of 1 on each axis;
  the destination dimensions are the source dimensions halved with a floor of 1 on
  each axis, all positive; and the next blit reads what this one wrote.
\<close>

theorem generate_mipmaps_halves_each_axis:
  assumes "generate_mipmaps_result to_i32 env engine g mip_levels ext format final_layout = (Inr (), calls)"
    and "0 <s to_i32 (width ext)" and "0 <s to_i32 (height ext)" and "0 <s to_i32 (depth ext)"
    and "i < unat mip_levels - 1"
  shows "length (mip_blits calls) = unat mip_levels - 1
    \<and> mipLevel (blit_srcSubresource (mip_blits calls ! i)) = of_nat i
    \<and> mipLevel (blit_dstSubresource (mip_blits calls ! i)) = of_nat i + 1
    \<and> offset_dims (srcOffsets1 (mip_blits calls ! i)) =
        (max 1 (sint (to_i32 (width ext)) div 2 ^ i),
         max 1 (sint (to_i32 (height ext)) div 2 ^ i),
         max 1 (sint (to_i32 (depth ext)) div 2 ^ i))
    \<and> offset_dims (dstOffsets1 (mip_blits calls ! i)) =
        halved_dims (offset_dims (srcOffsets1 (mip_blits calls ! i)))
    \<and> positive_dims (offset_dims (srcOffsets1 (mip_blits calls ! i)))
    \<and> positive_dims (offset_dims (dstOffsets1 (mip_blits calls ! i)))
    \<and> (Suc i < unat mip_levels - 1 \<longrightarrow>
         srcOffsets1 (mip_blits calls ! Suc i) = dstOffsets1 (mip_blits calls ! i))"
proof -
  let ?m = "Offset3D (to_i32 (width ext)) (to_i32 (height ext)) (to_i32 (depth ext))"
  have one: "1 < mip_levels"
    using assms(1) by (auto simp: generate_mipmaps_result_def split: if_splits)
  then have "unat (mip_levels - 1) = unat mip_levels - 1"
    by (simp add: unat_sub word_le_nat_alt word_less_nat_alt)
  then have n: "unat (0 :: u32) + (unat mip_levels - 1) = unat (mip_levels - 1)"
    by simp
  note regions = mip_loop_regions [OF n, of "image g" ?m]
  note blits = generate_mipmaps_result_blits [OF assms(1)]
  have pos: "positive_dims (offset_dims ?m)"
    using assms(2-4) by (simp add: offset_dims_def word_sless_alt)
  have w: "0 < sint (to_i32 (width ext))" "0 < sint (to_i32 (height ext))" "0 < sint (to_i32 (depth ext))"
    using assms(2-4) by (simp_all add: word_sless_alt)
  have len: "length (mip_blits calls) = unat mip_levels - 1"
    using regions blits by simp
  have nth: "j < unat mip_levels - 1 \<Longrightarrow> mip_blits calls ! j =
        \<lparr>blit_srcSubresource = ImageSubresourceLayers eColor (0 + of_nat j) 0 1,
          srcOffsets0 = Offset3D 0 0 0, srcOffsets1 = (next_mip_offset ^^ j) ?m,
          blit_dstSubresource = ImageSubresourceLayers eColor (0 + of_nat j + 1) 0 1,
          dstOffsets0 = Offset3D 0 0 0, dstOffsets1 = (next_mip_offset ^^ Suc j) ?m\<rparr>" for j
    using regions blits by presburger
  have src: "srcOffsets1 (mip_blits calls ! i) = (next_mip_offset ^^ i) ?m"
    and dst: "dstOffsets1 (mip_blits calls ! i) = next_mip_offset ((next_mip_offset ^^ i) ?m)"
    and lv: "mipLevel (blit_srcSubresource (mip_blits calls ! i)) = of_nat i"
      "mipLevel (blit_dstSubresource (mip_blits calls ! i)) = of_nat i + 1"
    using nth [OF assms(5)] by simp_all
  have dims: "positive_dims (offset_dims ((next_mip_offset ^^ i) ?m))"
    "offset_dims ((next_mip_offset ^^ i) ?m) = (halved_dims ^^ i) (offset_dims ?m)"
    using funpow_next_mip_offset_dims [OF pos, of i] by blast+
  have closed: "offset_dims ((next_mip_offset ^^ i) ?m) =
        (max 1 (sint (to_i32 (width ext)) div 2 ^ i),
         max 1 (sint (to_i32 (height ext)) div 2 ^ i),
         max 1 (sint (to_i32 (depth ext)) div 2 ^ i))"
    using dims(2) w by (simp add: offset_dims_def funpow_halved_dims halved_floor_1_power)
  have chain: "Suc i < unat mip_levels - 1 \<Longrightarrow>
      srcOffsets1 (mip_blits calls ! Suc i) = dstOffsets1 (mip_blits calls ! i)"
    using nth [of "Suc i"] dst by simp
  have step: "offset_dims (dstOffsets1 (mip_blits calls ! i)) =
        halved_dims (offset_dims (srcOffsets1 (mip_blits calls ! i)))"
    "positive_dims (offset_dims (dstOffsets1 (mip_blits calls ! i)))"
    using next_mip_offset_dims [OF dims(1)] src dst by simp_all
  have "positive_dims (offset_dims (srcOffsets1 (mip_blits calls ! i)))"
    using dims(1) src by simp
  moreover have "offset_dims (srcOffsets1 (mip_blits calls ! i)) =
        (max 1 (sint (to_i32 (width ext)) div 2 ^ i),
         max 1 (sint (to_i32 (height ext)) div 2 ^ i),
         max 1 (sint (to_i32 (depth ext)) div 2 ^ i))"
    using closed src by simp
  ultimately show ?thesis
    using len lv step chain by blast
qed

lemma mipmaps17_result:
  "generate_mipmaps_result (\<lambda>v. v) mipmap_ok engine0 image0 7 (Extent3D 17 5 1)
     eR8G8B8A8Srgb eShaderReadOnlyOptimal = (Inr (), calls17)"
proof -
  have g: "gpu engine0 \<noteq> nullptr" "image image0 \<noteq> nullptr"
    by (simp_all add: engine0_def image0_def nullptr_def)
  have r: "fst (generate_mipmaps_result (\<lambda>v. v) mipmap_ok engine0 image0 7 (Extent3D 17 5 1)
     eR8G8B8A8Srgb eShaderReadOnlyOptimal) = Inr ()"
    using g
    by (simp add: generate_mipmaps_result_def mipmap_ok_def eSampledImageFilterLinear_def
        eR8G8B8A8Srgb_def submit_single_time_commands_outcome(2) [OF single_time_outcome_ok])
  show ?thesis
    unfolding calls17_def using r by (simp add: prod_eq_iff)
qed

text \<open>
  The theorem at the extent (17, 5, 1) with seven mip levels: the widths are 17, 8,
  4, 2, 1, 1 and then 1, the heights 5, 2, 1, 1, 1, 1 and then 1.
\<close>

theorem generate_mipmaps_halves_each_axis_witness:
  "length (mip_blits calls17) = 6
   \<and> offset_dims (srcOffsets1 (mip_blits calls17 ! 0)) = (17, 5, 1)
   \<and> offset_dims (dstOffsets1 (mip_blits calls17 ! 0)) = (8, 2, 1)
   \<and> offset_dims (dstOffsets1 (mip_blits calls17 ! 1)) = (4, 1, 1)
   \<and> offset_dims (dstOffsets1 (mip_blits calls17 ! 2)) = (2, 1, 1)
   \<and> offset_dims (dstOffsets1 (mip_blits calls17 ! 3)) = (1, 1, 1)
   \<and> offset_dims (dstOffsets1 (mip_blits calls17 ! 4)) = (1, 1, 1)
   \<and> offset_dims (dstOffsets1 (mip_blits calls17 ! 5)) = (1, 1, 1)
   \<and> srcOffsets1 (mip_blits calls17 ! 5) = dstOffsets1 (mip_blits calls17 ! 4)
   \<and> mipLevel (blit_srcSubresource (mip_blits calls17 ! 5)) = 5
   \<and> mipLevel (blit_dstSubresource (mip_blits calls17 ! 5)) = 6"
proof -
  have p: "0 <s (17 :: i32)" "0 <s (5 :: i32)" "0 <s (1 :: i32)"
    by (simp_all add: word_sless_alt)
  have s: "sint (17 :: i32) = 17" "sint (5 :: i32) = 5" "sint (1 :: i32) = 1"
    by simp_all
  have i: "(0::nat) < unat (7 :: u32) - 1" "(1::nat) < unat (7 :: u32) - 1"
    "(2::nat) < unat (7 :: u32) - 1" "(3::nat) < unat (7 :: u32) - 1"
    "(4::nat) < unat (7 :: u32) - 1" "(5::nat) < unat (7 :: u32) - 1"
    "Suc 4 < unat (7 :: u32) - 1" "Suc 4 = 5"
    by simp_all
  note t = generate_mipmaps_halves_each_axis [OF mipmaps17_result]
  show ?thesis
    using t [of 0] t [of 1] t [of 2] t [of 3] t [of 4] t [of 5] p s i
    by (simp add: halved_floor_1_def)
qed

section \<open>Theorems: cubemap assembly\<close>

lemma copy_image_regions_append:
  "copy_image_regions (xs @ ys) = copy_image_regions xs @ copy_image_regions ys"
  by (induction xs rule: copy_image_regions.induct) simp_all

lemma copy_image_regions_cubemap_commands:
  "copy_image_regions (cubemap_commands data staging img ext) = cubemap_copies data ext"
  by (simp add: cubemap_commands_def copy_image_regions_append build_one_barrier)

lemma created_append:
  "created_images (xs @ ys) = created_images xs @ created_images ys"
  "created_views (xs @ ys) = created_views xs @ created_views ys"
  "submitted_commands (xs @ ys) = submitted_commands xs @ submitted_commands ys"
proof -
  show "created_images (xs @ ys) = created_images xs @ created_images ys"
    by (induction xs rule: created_images.induct) simp_all
  show "created_views (xs @ ys) = created_views xs @ created_views ys"
    by (induction xs rule: created_views.induct) simp_all
  show "submitted_commands (xs @ ys) = submitted_commands xs @ submitted_commands ys"
    by (induction xs rule: submitted_commands.induct) simp_all
qed

lemma create_cubemap_calls:
  assumes "create_cubemap to_u32 defaults env engine path = (Inr cube, calls)"
    and "load_result env = Inr data"
  shows "\<exists>staging_info staging.
    calls = [VmaCreateImage staging_info,
      VmaCreateImage \<lparr>info_flags = VK_IMAGE_CREATE_CUBE_COMPATIBLE_BIT,
        imageType = VK_IMAGE_TYPE_2D, info_format = eR8G8B8A8Srgb,
        info_extent = Extent3D (to_u32 (data_width data) div 4) (to_u32 (data_height data) div 3) 1,
        mipLevels = 1, arrayLayers = 6, samples = VK_SAMPLE_COUNT_1_BIT,
        info_usage = VK_IMAGE_USAGE_TRANSFER_DST_BIT OR VK_IMAGE_USAGE_SAMPLED_BIT,
        initialLayout = eUndefined\<rparr>,
      CreateImageView \<lparr>view_image = image cube, viewType = ImageViewType_eCube,
        view_format = eR8G8B8A8Srgb,
        view_subresourceRange = ImageSubresourceRange eColor 0 1 0 6\<rparr>,
      Submit (cubemap_commands data staging (image cube)
        (Extent3D (to_u32 (data_width data) div 4) (to_u32 (data_height data) div 3) 1)),
      DestroyStagingImage staging]"
proof -
  let ?cfg = "defaults\<lparr>staging_extent := Extent3D (to_u32 (data_width data)) (to_u32 (data_height data)) 1,
      staging_format := eR8G8B8A8Srgb,
      staging_usage := VK_IMAGE_USAGE_TRANSFER_DST_BIT OR VK_IMAGE_USAGE_TRANSFER_SRC_BIT\<rparr>"
  let ?ext = "Extent3D (to_u32 (data_width data) div 4) (to_u32 (data_height data) div 3) 1"
  obtain r0 calls0 where st: "StagingGpuImage_create (cube_staging env) engine ?cfg = (r0, calls0)"
    by (cases "StagingGpuImage_create (cube_staging env) engine ?cfg")
  from assms st obtain staging where r0: "r0 = Inr staging"
    by (cases r0) (auto simp: create_cubemap_def Let_def split: if_splits)
  from st r0 obtain staging_info where c0: "calls0 = [VmaCreateImage staging_info]"
    by (auto simp: StagingGpuImage_create_def Let_def split: if_splits)
  from assms st r0 have wr: "cube_staging_write env = Inr ()"
    by (cases "cube_staging_write env")
      (auto simp: create_cubemap_def Let_def split: if_splits prod.splits)
  let ?cmds = "cubemap_commands data staging (new_image (cube_image env)) ?ext"
  obtain r1 cmds where sub: "submit_single_time_commands (cube_submit env) engine ?cmds = (r1, cmds)"
    by (cases "submit_single_time_commands (cube_submit env) engine ?cmds")
  from assms st r0 wr sub have r1: "r1 = Inr ()"
    by (cases r1)
      (auto simp: create_cubemap_def Let_def split: if_splits prod.splits fault.splits)
  have cmds: "cmds = ?cmds"
    using submit_single_time_commands_recorded sub r1 by blast
  from assms st r0 wr sub r1 cmds c0 show ?thesis
    by (auto simp: create_cubemap_def Let_def split: if_splits prod.splits)
qed

text \<open>
  C8. When \<^verbatim>\<open>create_cubemap\<close> succeeds on a cross image of width \<open>W\<close> and height
  \<open>H\<close>, the image it creates for the cube has six array layers, the
  cube-compatible flag and the extent (\<open>W / 4\<close>, \<open>H / 3\<close>, 1), its view spans the
  six layers, and the single image copy it submits has exactly six regions, each
  of that extent; region \<open>k\<close> writes array layer \<open>k\<close> and reads the source at
  (\<open>W * column / 4\<close>, \<open>H * row / 3\<close>), where (column, row) is the cell of the
  \<open>k\<close>-th face in the order +X, -X, +Y, -Y, +Z, -Z; layer 0 reads the cell
  (2, 1), the right one.
\<close>

theorem create_cubemap_copies_cross_cells:
  assumes "create_cubemap to_u32 defaults env engine path = (Inr cube, calls)"
    and "load_result env = Inr data"
  shows "info_extent (last (created_images calls))
           = Extent3D (to_u32 (data_width data) div 4) (to_u32 (data_height data) div 3) 1
    \<and> arrayLayers (last (created_images calls)) = 6
    \<and> info_flags (last (created_images calls)) = VK_IMAGE_CREATE_CUBE_COMPATIBLE_BIT
    \<and> map view_subresourceRange (created_views calls) = [ImageSubresourceRange eColor 0 1 0 6]
    \<and> length (copy_image_regions (submitted_commands calls)) = 6
    \<and> map extent (copy_image_regions (submitted_commands calls))
         = replicate 6 (Extent3D (to_u32 (data_width data) div 4) (to_u32 (data_height data) div 3) 1)
    \<and> map dstSubresource (copy_image_regions (submitted_commands calls))
         = map (\<lambda>layer. ImageSubresourceLayers eColor 0 layer 1) [0, 1, 2, 3, 4, 5]
    \<and> map copy_srcOffset (copy_image_regions (submitted_commands calls))
         = map (\<lambda>(column, row). Offset3D (i32_div (data_width data * column) 4)
                  (i32_div (data_height data * row) 3) 0) cross_cells
    \<and> copy_srcOffset (copy_image_regions (submitted_commands calls) ! 0)
         = Offset3D (i32_div (data_width data * 2) 4) (i32_div (data_height data * 1) 3) 0
    \<and> map copy_dstOffset (copy_image_regions (submitted_commands calls)) = replicate 6 (Offset3D 0 0 0)"
proof -
  from create_cubemap_calls [OF assms] obtain staging_info staging where
    calls: "calls = [VmaCreateImage staging_info,
      VmaCreateImage \<lparr>info_flags = VK_IMAGE_CREATE_CUBE_COMPATIBLE_BIT,
        imageType = VK_IMAGE_TYPE_2D, info_format = eR8G8B8A8Srgb,
        info_extent = Extent3D (to_u32 (data_width data) div 4) (to_u32 (data_height data) div 3) 1,
        mipLevels = 1, arrayLayers = 6, samples = VK_SAMPLE_COUNT_1_BIT,
        info_usage = VK_IMAGE_USAGE_TRANSFER_DST_BIT OR VK_IMAGE_USAGE_SAMPLED_BIT,
        initialLayout = eUndefined\<rparr>,
      CreateImageView \<lparr>view_image = image cube, viewType = ImageViewType_eCube,
        view_format = eR8G8B8A8Srgb,
        view_subresourceRange = ImageSubresourceRange eColor 0 1 0 6\<rparr>,
      Submit (cubemap_commands data staging (image cube)
        (Extent3D (to_u32 (data_width data) div 4) (to_u32 (data_height data) div 3) 1)),
      DestroyStagingImage staging]"
    by blast
  have six: "replicate 6 x = [x, x, x, x, x, x]" for x :: 'a
    by (simp add: eval_nat_numeral)
  show ?thesis
    unfolding calls
    by (simp add: copy_image_regions_cubemap_commands cubemap_copies_def cross_cells_def six)
qed
lemma cubemap_ok_result:
  "create_cubemap (\<lambda>v. v) staging_defaults cubemap_ok engine0 ''cross.png''
     = (Inr \<lparr>image_allocation = 73, image = 72, view = 74\<rparr>, cube_calls)"
proof -
  have r: "fst (create_cubemap (\<lambda>v. v) staging_defaults cubemap_ok engine0 ''cross.png'')
      = Inr \<lparr>image_allocation = 73, image = 72, view = 74\<rparr>"
    using engine0_handles
    by (simp add: create_cubemap_def cubemap_ok_def staging_defaults_def cross_data_def
        StagingGpuImage_create_def eR8G8B8A8Srgb_def VK_IMAGE_USAGE_TRANSFER_DST_BIT_def
        VK_IMAGE_USAGE_TRANSFER_SRC_BIT_def nullptr_def Let_def
        submit_single_time_commands_outcome(2) [OF single_time_outcome_ok])
  show ?thesis
    unfolding cube_calls_def using r by (simp add: prod_eq_iff)
qed

text \<open>
  The theorem at a cross of 2048 by 1536 pixels: six layers of 512 by 512, layer 0
  read at (1024, 512).
\<close>

theorem create_cubemap_copies_cross_cells_witness:
  "info_extent (last (created_images cube_calls)) = Extent3D 512 512 1
   \<and> arrayLayers (last (created_images cube_calls)) = 6
   \<and> length (copy_image_regions (submitted_commands cube_calls)) = 6
   \<and> map extent (copy_image_regions (submitted_commands cube_calls))
        = replicate 6 (Extent3D 512 512 1)
   \<and> map copy_srcOffset (copy_image_regions (submitted_commands cube_calls))
        = [Offset3D 1024 512 0, Offset3D 0 512 0, Offset3D 512 0 0,
           Offset3D 512 1024 0, Offset3D 512 512 0, Offset3D 1536 512 0]
   \<and> copy_srcOffset (copy_image_regions (submitted_commands cube_calls) ! 0)
        = Offset3D 1024 512 0"
proof -
  have l: "load_result cubemap_ok = Inr cross_data"
    by (simp add: cubemap_ok_def)
  have d: "i32_div (2048 * 2) 4 = 1024" "i32_div (2048 * 0) 4 = 0" "i32_div (2048 * 1) 4 = 512"
    "i32_div (2048 * 3) 4 = 1536" "i32_div (1536 * 1) 3 = 512" "i32_div (1536 * 0) 3 = 0"
    "i32_div (1536 * 2) 3 = 1024"
    by (simp_all add: i32_div_def signed_divide_int_def)
  have e: "(2048 :: u32) div 4 = 512" "(1536 :: u32) div 3 = 512"
    by simp_all
  show ?thesis
    using create_cubemap_copies_cross_cells [OF cubemap_ok_result l] d e
    by (simp add: cross_data_def cross_cells_def)
qed

end
